theory Spec2Isabelle
  imports Main "HOL-Library.AList" "HOL-Library.Sublist"
begin

section \<open>JavaScript values\<close>

text \<open>
  The client handles values parsed from JSON, the token handed down by the auth hook and
  \<open>undefined\<close> (an omitted argument, a missing property). A string is its byte
  sequence. The client applies only two operations to a number, the conversion to a
  string and the truthiness test, and both are functions of the number's decimal
  rendering (\<open>String(0)\<close> and \<open>String(-0)\<close> are both \<open>0\<close>), so a number is
  represented by that rendering. An object is the list of its own properties, in the
  order \<open>Object.keys\<close> lists them.
\<close>

datatype js_value =
    Undefined
  | Null
  | Bool bool
  | Num string
  | Str string
  | Arr "js_value list"
  | Obj "(string \<times> js_value) list"

text \<open>An exception object: its name and its \<open>message\<close> property.\<close>

datatype js_error = JsError (err_name: string) (message: string)

text \<open>Truthiness, as tested by \<open>if (x)\<close>, \<open>!x\<close>, \<open>x || y\<close>.\<close>

fun ToBoolean :: "js_value \<Rightarrow> bool" where
  "ToBoolean Undefined = False"
| "ToBoolean Null = False"
| "ToBoolean (Bool b) = b"
| "ToBoolean (Num n) = (n \<noteq> ''0'' \<and> n \<noteq> ''NaN'')"
| "ToBoolean (Str s) = (s \<noteq> [])"
| "ToBoolean (Arr xs) = True"
| "ToBoolean (Obj kvs) = True"

text \<open>\<open>a || b\<close>\<close>

definition js_or :: "js_value \<Rightarrow> js_value \<Rightarrow> js_value" where
  "js_or a b = (if ToBoolean a then a else b)"

text \<open>Joining strings with a separator (\<open>Array.prototype.join\<close>).\<close>

fun join :: "string \<Rightarrow> string list \<Rightarrow> string" where
  "join sep [] = []"
| "join sep [s] = s"
| "join sep (s # t # ss) = s @ sep @ join sep (t # ss)"

text \<open>
  The conversion to a string of template literals, of \<open>new Error(x)\<close> and of
  \<open>URLSearchParams\<close>. An array joins its elements with commas, \<open>null\<close> and
  \<open>undefined\<close> elements giving the empty string; a plain object, as \<open>JSON.parse\<close>
  builds it, gives \<open>[object Object]\<close>. This is the conversion of a value that holds no
  object with a property named \<open>toString\<close>; the token and the identifiers the client
  converts are strings.
\<close>

fun ToString :: "js_value \<Rightarrow> string" where
  "ToString Undefined = ''undefined''"
| "ToString Null = ''null''"
| "ToString (Bool b) = (if b then ''true'' else ''false'')"
| "ToString (Num n) = n"
| "ToString (Str s) = s"
| "ToString (Arr xs) =
     join '','' (map (\<lambda>x. if x = Null \<or> x = Undefined then [] else ToString x) xs)"
| "ToString (Obj kvs) = ''[object Object]''"

text \<open>
  Reading a property whose name is on no built-in prototype (\<open>detail\<close>, \<open>id\<close>,
  \<open>subject\<close>, \<open>sender\<close>, \<open>date\<close>): \<open>null\<close> and \<open>undefined\<close> throw a
  \<open>TypeError\<close> (the message is the engine's; V8's wording is used), an object gives its
  own property or \<open>undefined\<close>, every other value gives \<open>undefined\<close>.
\<close>

definition null_property_error :: "js_value \<Rightarrow> string \<Rightarrow> js_error" where
  "null_property_error v p =
     JsError ''TypeError''
       (''Cannot read properties of '' @ ToString v @ '' (reading '' @ [CHR 0x27] @ p @ [CHR 0x27] @ '')'')"

fun get_property :: "js_value \<Rightarrow> string \<Rightarrow> js_error + js_value" where
  "get_property Undefined p = Inl (null_property_error Undefined p)"
| "get_property Null p = Inl (null_property_error Null p)"
| "get_property (Obj kvs) p = (case map_of kvs p of None \<Rightarrow> Inr Undefined | Some v \<Rightarrow> Inr v)"
| "get_property v p = Inr Undefined"

section \<open>The network\<close>

record request =
  url :: string
  http_method :: string
  headers :: "(string \<times> string) list"

text \<open>
  What \<open>fetch\<close> settles to: it rejects (no connection), or it resolves to a response
  with its \<open>ok\<close> flag and what \<open>response.json()\<close> settles to (\<open>Inl\<close>: the body
  is not JSON and the promise rejects). A request that never settles is outside the model:
  the client sets no timeout, and an operation is followed only when its requests settle.
\<close>

datatype fetch_outcome =
    Rejected js_error
  | Response (ok: bool) (json: "js_error + js_value")

text \<open>
  The backend is not part of the client: it is any function from the requests received so
  far and the current request to an outcome.
\<close>

type_synonym backend = "request list \<Rightarrow> request \<Rightarrow> fetch_outcome"

section \<open>The dashboard's state and its trace\<close>

text \<open>The five \<open>useState\<close> cells of \<open>Dashboard\<close>.\<close>

record dashboard =
  emails :: js_value
  applications :: js_value
  loading :: bool
  error :: "string option"
  processingId :: js_value

definition dashboard0 :: dashboard where
  "dashboard0 = \<lparr>emails = Arr [], applications = Arr [], loading = False, error = None,
                  processingId = Null\<rparr>"

text \<open>Every effect of the client, in the order it happens.\<close>

datatype event =
    SetEmails js_value
  | SetApplications js_value
  | SetLoading bool
  | SetError "string option"
  | SetProcessingId js_value
  | Fetch request
  | ConsoleError string js_error

record world =
  ui :: dashboard
  log :: "event list"

definition world0 :: world where
  "world0 = \<lparr>ui = dashboard0, log = []\<rparr>"

definition setEmails :: "js_value \<Rightarrow> world \<Rightarrow> world" where
  "setEmails v w = w\<lparr>ui := (ui w)\<lparr>emails := v\<rparr>, log := log w @ [SetEmails v]\<rparr>"

definition setApplications :: "js_value \<Rightarrow> world \<Rightarrow> world" where
  "setApplications v w = w\<lparr>ui := (ui w)\<lparr>applications := v\<rparr>, log := log w @ [SetApplications v]\<rparr>"

definition setLoading :: "bool \<Rightarrow> world \<Rightarrow> world" where
  "setLoading b w = w\<lparr>ui := (ui w)\<lparr>loading := b\<rparr>, log := log w @ [SetLoading b]\<rparr>"

definition setError :: "string option \<Rightarrow> world \<Rightarrow> world" where
  "setError e w = w\<lparr>ui := (ui w)\<lparr>error := e\<rparr>, log := log w @ [SetError e]\<rparr>"

definition setProcessingId :: "js_value \<Rightarrow> world \<Rightarrow> world" where
  "setProcessingId v w = w\<lparr>ui := (ui w)\<lparr>processingId := v\<rparr>, log := log w @ [SetProcessingId v]\<rparr>"

definition console_error :: "string \<Rightarrow> js_error \<Rightarrow> world \<Rightarrow> world" where
  "console_error label e w = w\<lparr>log := log w @ [ConsoleError label e]\<rparr>"

text \<open>The requests issued so far.\<close>

fun requests :: "event list \<Rightarrow> request list" where
  "requests [] = []"
| "requests (Fetch r # evs) = r # requests evs"
| "requests (e # evs) = requests evs"

text \<open>\<open>await fetch(url, init)\<close>: the request is issued, the backend decides the outcome.\<close>

definition fetch :: "backend \<Rightarrow> request \<Rightarrow> world \<Rightarrow> fetch_outcome \<times> world" where
  "fetch bk req w = (bk (requests (log w)) req, w\<lparr>log := log w @ [Fetch req]\<rparr>)"

text \<open>
  The state on screen while each request of a trace is pending: the setters called before
  an \<open>await\<close> are rendered when the handler yields.
\<close>

fun apply_event :: "event \<Rightarrow> dashboard \<Rightarrow> dashboard" where
  "apply_event (SetEmails v) d = d\<lparr>emails := v\<rparr>"
| "apply_event (SetApplications v) d = d\<lparr>applications := v\<rparr>"
| "apply_event (SetLoading b) d = d\<lparr>loading := b\<rparr>"
| "apply_event (SetError e) d = d\<lparr>error := e\<rparr>"
| "apply_event (SetProcessingId v) d = d\<lparr>processingId := v\<rparr>"
| "apply_event (Fetch r) d = d"
| "apply_event (ConsoleError l e) d = d"

fun pending :: "dashboard \<Rightarrow> event list \<Rightarrow> dashboard list" where
  "pending d [] = []"
| "pending d (Fetch r # evs) = d # pending d evs"
| "pending d (e # evs) = pending (apply_event e d) evs"

section \<open>lib/api.js\<close>

text \<open>\<open>import.meta.env.VITE_API_URL || 'http://localhost:8000'\<close>\<close>

record config =
  VITE_API_URL :: js_value

definition API_BASE :: "config \<Rightarrow> string" where
  "API_BASE cfg = ToString (js_or (VITE_API_URL cfg) (Str ''http://localhost:8000''))"

text \<open>The \<open>options\<close> argument of \<open>apiRequest\<close>: \<open>{}\<close>, or \<open>{ method: 'POST' }\<close>.\<close>

record options =
  opt_method :: "string option"
  opt_headers :: "(string \<times> string) list"

definition no_options :: options where
  "no_options = \<lparr>opt_method = None, opt_headers = []\<rparr>"

definition post_options :: options where
  "post_options = \<lparr>opt_method = Some ''POST'', opt_headers = []\<rparr>"

text \<open>
  The \<open>headers\<close> object of \<open>apiRequest\<close>: the content type, then the caller's
  headers spread over it, then the bearer token when the token is truthy.
\<close>

definition apiRequest_headers :: "options \<Rightarrow> js_value \<Rightarrow> (string \<times> string) list" where
  "apiRequest_headers opts token =
     (let headers = fold (\<lambda>(k, v). AList.update k v) (opt_headers opts)
                      [(''Content-Type'', ''application/json'')]
      in if ToBoolean token
         then AList.update ''Authorization'' (''Bearer '' @ ToString token) headers
         else headers)"

text \<open>The request handed to \<open>fetch\<close>; a request without a method is a \<open>GET\<close>.\<close>

definition apiRequest_request :: "config \<Rightarrow> string \<Rightarrow> options \<Rightarrow> js_value \<Rightarrow> request" where
  "apiRequest_request cfg endpoint opts token =
     \<lparr>url = API_BASE cfg @ endpoint,
      http_method = (case opt_method opts of None \<Rightarrow> ''GET'' | Some m \<Rightarrow> m),
      headers = apiRequest_headers opts token\<rparr>"

text \<open>A parameter with a default value takes it when the argument is \<open>undefined\<close>.\<close>

definition default_arg :: "js_value \<Rightarrow> js_value \<Rightarrow> js_value" where
  "default_arg v d = (if v = Undefined then d else v)"

text \<open>
  \<open>apiRequest(endpoint, options = {}, token = null)\<close>. An omitted \<open>options\<close> is
  \<open>None\<close>. The result is \<open>Inl\<close> when the function throws.
\<close>

definition apiRequest ::
  "config \<Rightarrow> backend \<Rightarrow> string \<Rightarrow> options option \<Rightarrow> js_value \<Rightarrow> world
     \<Rightarrow> (js_error + js_value) \<times> world"
where
  "apiRequest cfg bk endpoint options token w =
     (let opts = (case options of None \<Rightarrow> no_options | Some opts \<Rightarrow> opts);
          token = default_arg token Null
      in case fetch bk (apiRequest_request cfg endpoint opts token) w of
           (Rejected e, w') \<Rightarrow> (Inl e, w')
         | (Response is_ok body, w') \<Rightarrow>
             if \<not> is_ok then
               (let error = (case body of
                               Inl _ \<Rightarrow> Obj [(''detail'', Str ''Unknown error'')]
                             | Inr v \<Rightarrow> v)
                in case get_property error ''detail'' of
                     Inl e \<Rightarrow> (Inl e, w')
                   | Inr detail \<Rightarrow>
                       (Inl (JsError ''Error''
                               (ToString (js_or detail (Str ''API request failed'')))),
                        w'))
             else (body, w'))"

text \<open>
  \<open>URLSearchParams\<close> serialises its pairs as \<open>application/x-www-form-urlencoded\<close>:
  letters, digits and \<open>* - . _\<close> stay, a space becomes \<open>+\<close>, every other byte
  becomes \<open>%\<close> and two upper-case hexadecimal digits.
\<close>

definition hex_digit :: "nat \<Rightarrow> char" where
  "hex_digit n = ''0123456789ABCDEF'' ! (n mod 16)"

definition urlencoded_plain :: "char \<Rightarrow> bool" where
  "urlencoded_plain c =
     (let n = (of_char c :: nat)
      in (48 \<le> n \<and> n \<le> 57) \<or> (65 \<le> n \<and> n \<le> 90) \<or> (97 \<le> n \<and> n \<le> 122)
         \<or> c \<in> set ''*-._'')"

definition urlencode_byte :: "char \<Rightarrow> string" where
  "urlencode_byte c =
     (if c = CHR '' '' then ''+''
      else if urlencoded_plain c then [c]
      else [CHR ''%'', hex_digit (of_char c div 16), hex_digit (of_char c)])"

definition urlencode :: "string \<Rightarrow> string" where
  "urlencode s = concat (map urlencode_byte s)"

definition URLSearchParams :: "(string \<times> js_value) list \<Rightarrow> string" where
  "URLSearchParams kvs =
     join ''&'' (map (\<lambda>(k, v). urlencode k @ ''='' @ urlencode (ToString v)) kvs)"

text \<open>The six exported functions.\<close>

definition fetchEmails ::
  "config \<Rightarrow> backend \<Rightarrow> js_value \<Rightarrow> js_value \<Rightarrow> js_value \<Rightarrow> world
     \<Rightarrow> (js_error + js_value) \<times> world"
where
  "fetchEmails cfg bk token query maxResults w =
     (let query = default_arg query (Str ''in:inbox'');
          maxResults = default_arg maxResults (Num ''10'');
          params = URLSearchParams [(''query'', query), (''max_results'', maxResults)]
      in apiRequest cfg bk (''/api/emails?'' @ params) (Some no_options) token w)"

definition fetchEmail ::
  "config \<Rightarrow> backend \<Rightarrow> js_value \<Rightarrow> js_value \<Rightarrow> world \<Rightarrow> (js_error + js_value) \<times> world"
where
  "fetchEmail cfg bk token emailId w =
     apiRequest cfg bk (''/api/emails/'' @ ToString emailId) (Some no_options) token w"

definition saveApplication ::
  "config \<Rightarrow> backend \<Rightarrow> js_value \<Rightarrow> js_value \<Rightarrow> world \<Rightarrow> (js_error + js_value) \<times> world"
where
  "saveApplication cfg bk token emailId w =
     apiRequest cfg bk (''/api/applications/save/'' @ ToString emailId) (Some post_options) token w"

definition getApplications ::
  "config \<Rightarrow> backend \<Rightarrow> world \<Rightarrow> (js_error + js_value) \<times> world"
where
  "getApplications cfg bk w = apiRequest cfg bk ''/api/applications'' None Undefined w"

definition processLatestEmail ::
  "config \<Rightarrow> backend \<Rightarrow> js_value \<Rightarrow> js_value \<Rightarrow> world \<Rightarrow> (js_error + js_value) \<times> world"
where
  "processLatestEmail cfg bk token query w =
     (let query = default_arg query (Str ''in:inbox'');
          params = URLSearchParams [(''query'', query)]
      in apiRequest cfg bk (''/api/applications/process-latest?'' @ params) (Some post_options)
           token w)"

definition healthCheck :: "config \<Rightarrow> backend \<Rightarrow> world \<Rightarrow> (js_error + js_value) \<times> world" where
  "healthCheck cfg bk w = apiRequest cfg bk ''/'' None Undefined w"

section \<open>Dashboard.jsx\<close>

text \<open>
  The handlers read the \<open>providerToken\<close> prop and no state cell; each runs from its
  first statement to its last.
\<close>

definition loadApplications :: "config \<Rightarrow> backend \<Rightarrow> world \<Rightarrow> world" where
  "loadApplications cfg bk w =
     (case getApplications cfg bk w of
        (Inr apps, w') \<Rightarrow> setApplications apps w'
      | (Inl err, w') \<Rightarrow> console_error ''Failed to load applications:'' err w')"

definition no_token_message :: string where
  "no_token_message = ''No Gmail token available. Please sign in again.''"

definition handleFetchEmails :: "config \<Rightarrow> backend \<Rightarrow> js_value \<Rightarrow> world \<Rightarrow> world" where
  "handleFetchEmails cfg bk providerToken w =
     (if \<not> ToBoolean providerToken then setError (Some no_token_message) w
      else
        (let w1 = setLoading True w;
             w2 = setError None w1
         in case fetchEmails cfg bk providerToken (Str ''in:inbox'') (Num ''10'') w2 of
              (Inr result, w3) \<Rightarrow> setLoading False (setEmails (js_or result (Arr [])) w3)
            | (Inl err, w3) \<Rightarrow> setLoading False (setError (Some (message err)) w3)))"

definition handleProcessLatest :: "config \<Rightarrow> backend \<Rightarrow> js_value \<Rightarrow> world \<Rightarrow> world" where
  "handleProcessLatest cfg bk providerToken w =
     (if \<not> ToBoolean providerToken then setError (Some no_token_message) w
      else
        (let w1 = setLoading True w;
             w2 = setError None w1
         in case processLatestEmail cfg bk providerToken Undefined w2 of
              (Inr _, w3) \<Rightarrow> setLoading False (loadApplications cfg bk w3)
            | (Inl err, w3) \<Rightarrow> setLoading False (setError (Some (message err)) w3)))"

definition handleSaveEmail :: "config \<Rightarrow> backend \<Rightarrow> js_value \<Rightarrow> js_value \<Rightarrow> world \<Rightarrow> world" where
  "handleSaveEmail cfg bk providerToken emailId w =
     (if \<not> ToBoolean providerToken then w
      else
        (let w1 = setProcessingId emailId w
         in case saveApplication cfg bk providerToken emailId w1 of
              (Inr _, w2) \<Rightarrow> setProcessingId Null (loadApplications cfg bk w2)
            | (Inl err, w2) \<Rightarrow> setProcessingId Null (setError (Some (message err)) w2)))"

text \<open>
  What \<open>Dashboard\<close> renders from its state. The banner: \<open>{error && ...}\<close>.
\<close>

definition error_banner :: "dashboard \<Rightarrow> string option" where
  "error_banner d = (case error d of None \<Rightarrow> None | Some m \<Rightarrow> if m \<noteq> [] then Some m else None)"



text \<open>
  The email list. The rows are built by \<open>emails.map\<close>, whose callback reads the four
  properties of an email and creates the row's element; React then renders the elements in
  order. The callback gives \<open>email.id\<close> as the key, and React converts a key that is
  not \<open>undefined\<close> with \<open>'' + key\<close>. That conversion, unlike \<open>ToString\<close>, is
  followed here on every value: an object with an own \<open>toString\<close> property, which in a
  parsed value is never a function, cannot be converted.
\<close>

definition not_primitive_error :: js_error where
  "not_primitive_error = JsError ''TypeError'' ''Cannot convert object to primitive value''"

fun string_coercion :: "js_value \<Rightarrow> js_error + string"
  and string_coercions :: "js_value list \<Rightarrow> js_error + string list" where
  "string_coercion Undefined = Inr ''undefined''"
| "string_coercion Null = Inr ''null''"
| "string_coercion (Bool b) = Inr (if b then ''true'' else ''false'')"
| "string_coercion (Num n) = Inr n"
| "string_coercion (Str s) = Inr s"
| "string_coercion (Arr xs) =
     (case string_coercions xs of Inl e \<Rightarrow> Inl e | Inr ss \<Rightarrow> Inr (join '','' ss))"
| "string_coercion (Obj kvs) =
     (if map_of kvs ''toString'' = None then Inr ''[object Object]'' else Inl not_primitive_error)"
| "string_coercions [] = Inr []"
| "string_coercions (x # xs) =
     (case (if x = Null \<or> x = Undefined then Inr [] else string_coercion x) of
        Inl e \<Rightarrow> Inl e
      | Inr s \<Rightarrow> (case string_coercions xs of Inl e \<Rightarrow> Inl e | Inr ss \<Rightarrow> Inr (s # ss)))"

text \<open>
  The element of one row: its key, and the values of the three expressions that are the
  children of the heading and of the two paragraphs, \<open>email.subject || 'No Subject'\<close>,
  \<open>email.sender\<close> and \<open>email.date\<close>.
\<close>

record email_element =
  element_key :: "string option"
  subject_child :: js_value
  sender_child :: js_value
  date_child :: js_value

definition email_jsx :: "js_value \<Rightarrow> js_error + email_element" where
  "email_jsx email =
     (case get_property email ''id'' of
        Inl e \<Rightarrow> Inl e
      | Inr eid \<Rightarrow>
     (case get_property email ''subject'' of
        Inl e \<Rightarrow> Inl e
      | Inr subject \<Rightarrow>
     (case get_property email ''sender'' of
        Inl e \<Rightarrow> Inl e
      | Inr sender \<Rightarrow>
     (case get_property email ''date'' of
        Inl e \<Rightarrow> Inl e
      | Inr date \<Rightarrow>
     (case (if eid = Undefined then Inr None else map_sum id Some (string_coercion eid)) of
        Inl e \<Rightarrow> Inl e
      | Inr k \<Rightarrow>
          Inr \<lparr>element_key = k, subject_child = js_or subject (Str ''No Subject''),
               sender_child = sender, date_child = date\<rparr>)))))"

text \<open>\<open>emails.map(...)\<close> on an array: the first callback that throws ends it.\<close>

fun emails_map :: "js_value list \<Rightarrow> js_error + email_element list" where
  "emails_map [] = Inr []"
| "emails_map (email # rest) =
     (case email_jsx email of
        Inl e \<Rightarrow> Inl e
      | Inr el \<Rightarrow> (case emails_map rest of Inl e \<Rightarrow> Inl e | Inr els \<Rightarrow> Inr (el # els)))"

text \<open>
  What React shows for a child: a string or a number is text, \<open>true\<close>, \<open>false\<close>,
  \<open>null\<close> and \<open>undefined\<close> show nothing, an array shows its elements one after the
  other, and an object is refused with an error that lists its keys.
\<close>

definition invalid_child_error :: "(string \<times> js_value) list \<Rightarrow> js_error" where
  "invalid_child_error kvs =
     JsError ''Error''
       (''Objects are not valid as a React child (found: object with keys {''
        @ join '', '' (map fst kvs)
        @ ''}). If you meant to render a collection of children, use an array instead.'')"

fun react_child :: "js_value \<Rightarrow> js_error + string"
  and react_children :: "js_value list \<Rightarrow> js_error + string" where
  "react_child Undefined = Inr []"
| "react_child Null = Inr []"
| "react_child (Bool b) = Inr []"
| "react_child (Num n) = Inr n"
| "react_child (Str s) = Inr s"
| "react_child (Arr xs) = react_children xs"
| "react_child (Obj kvs) = Inl (invalid_child_error kvs)"
| "react_children [] = Inr []"
| "react_children (x # xs) =
     (case react_child x of
        Inl e \<Rightarrow> Inl e
      | Inr t \<Rightarrow> (case react_children xs of Inl e \<Rightarrow> Inl e | Inr ts \<Rightarrow> Inr (t @ ts)))"

text \<open>One row as shown: the key and the three texts, rendered in this order.\<close>

record email_row =
  row_key :: "string option"
  row_subject :: string
  row_sender :: string
  row_date :: string

definition render_email :: "email_element \<Rightarrow> js_error + email_row" where
  "render_email el =
     (case react_child (subject_child el) of
        Inl e \<Rightarrow> Inl e
      | Inr subject \<Rightarrow>
     (case react_child (sender_child el) of
        Inl e \<Rightarrow> Inl e
      | Inr sender \<Rightarrow>
     (case react_child (date_child el) of
        Inl e \<Rightarrow> Inl e
      | Inr date \<Rightarrow>
          Inr \<lparr>row_key = element_key el, row_subject = subject, row_sender = sender,
               row_date = date\<rparr>)))"

fun render_rows :: "email_element list \<Rightarrow> js_error + email_row list" where
  "render_rows [] = Inr []"
| "render_rows (el # rest) =
     (case render_email el of
        Inl e \<Rightarrow> Inl e
      | Inr row \<Rightarrow> (case render_rows rest of Inl e \<Rightarrow> Inl e | Inr rows \<Rightarrow> Inr (row # rows)))"

datatype emails_view = Placeholder | Rows "email_row list"

definition map_not_a_function :: js_error where
  "map_not_a_function = JsError ''TypeError'' ''emails.map is not a function''"

text \<open>
  \<open>emails.length === 0 ? placeholder : emails.map(...)\<close>. Only an array has a
  \<open>map\<close> method; a string has a \<open>length\<close>, an object has one if it is among
  its properties.
\<close>

fun render_emails :: "js_value \<Rightarrow> js_error + emails_view" where
  "render_emails (Arr es) =
     (if length es = 0 then Inr Placeholder
      else (case emails_map es of
              Inl e \<Rightarrow> Inl e
            | Inr els \<Rightarrow> (case render_rows els of Inl e \<Rightarrow> Inl e | Inr rows \<Rightarrow> Inr (Rows rows))))"
| "render_emails (Str s) = (if length s = 0 then Inr Placeholder else Inl map_not_a_function)"
| "render_emails (Obj kvs) =
     (if map_of kvs ''length'' = Some (Num ''0'') then Inr Placeholder
      else Inl map_not_a_function)"
| "render_emails Undefined = Inl (null_property_error Undefined ''length'')"
| "render_emails Null = Inl (null_property_error Null ''length'')"
| "render_emails v = Inl map_not_a_function"

section \<open>lib/supabase.js and App.jsx\<close>

text \<open>
  What \<open>supabase.auth.signInWithOAuth\<close> settles to: it rejects, or it resolves to
  \<open>{ data, error }\<close> with \<open>error\<close> null or an error object.
\<close>

datatype oauth_outcome =
    OAuthRejected js_error
  | OAuthResolved js_value "js_error option"

definition signInWithGoogle :: "oauth_outcome \<Rightarrow> js_error + js_value" where
  "signInWithGoogle out =
     (case out of
        OAuthRejected e \<Rightarrow> Inl e
      | OAuthResolved data err \<Rightarrow> (case err of Some e \<Rightarrow> Inl e | None \<Rightarrow> Inr data))"

text \<open>
  The state of \<open>App\<close> that \<open>handleGoogleSignIn\<close> touches: the one cell
  \<open>signInLoading\<close>, and the console. \<open>App\<close> has no error cell.
\<close>

record app =
  signInLoading :: bool
  console :: "(string \<times> js_error) list"

definition handleGoogleSignIn :: "oauth_outcome \<Rightarrow> app \<Rightarrow> app" where
  "handleGoogleSignIn out a =
     (let a1 = a\<lparr>signInLoading := True\<rparr>
      in case signInWithGoogle out of
           Inr _ \<Rightarrow> a1\<lparr>signInLoading := False\<rparr>
         | Inl err \<Rightarrow>
             a1\<lparr>console := console a1 @ [(''Sign in error:'', err)], signInLoading := False\<rparr>)"

section \<open>Notions used to state the properties\<close>

text \<open>What an operation appended to the trace, and the requests among it.\<close>

definition events_since :: "world \<Rightarrow> world \<Rightarrow> event list" where
  "events_since w w' = drop (length (log w)) (log w')"

definition authorization :: "request \<Rightarrow> string option" where
  "authorization r = map_of (headers r) ''Authorization''"

text \<open>An object's own property, \<open>undefined\<close> when it has none of that name.\<close>

definition own_property :: "(string \<times> js_value) list \<Rightarrow> string \<Rightarrow> js_value" where
  "own_property kvs p = (case map_of kvs p of None \<Rightarrow> Undefined | Some v \<Rightarrow> v)"

text \<open>
  A scalar is a value that is neither an array nor an object. The text React shows for a
  scalar: a string or a number as it is, nothing for \<open>true\<close>, \<open>false\<close>, \<open>null\<close>
  and \<open>undefined\<close>.
\<close>

fun scalar :: "js_value \<Rightarrow> bool" where
  "scalar (Arr xs) = False"
| "scalar (Obj kvs) = False"
| "scalar v = True"

fun scalar_text :: "js_value \<Rightarrow> string" where
  "scalar_text (Str s) = s"
| "scalar_text (Num n) = n"
| "scalar_text v = []"

fun is_object :: "js_value \<Rightarrow> bool" where
  "is_object (Obj kvs) = True"
| "is_object v = False"

text \<open>
  The row shown for an email object whose four fields are scalars, and the two conditions
  on an email object used below: all four fields are scalars; one of the three fields that
  are displayed is an object.
\<close>

definition shown_row :: "(string \<times> js_value) list \<Rightarrow> email_row" where
  "shown_row kvs =
     \<lparr>row_key = (if own_property kvs ''id'' = Undefined then None
                 else Some (ToString (own_property kvs ''id''))),
      row_subject = scalar_text (js_or (own_property kvs ''subject'') (Str ''No Subject'')),
      row_sender = scalar_text (own_property kvs ''sender''),
      row_date = scalar_text (own_property kvs ''date'')\<rparr>"

definition scalar_fields :: "(string \<times> js_value) list \<Rightarrow> bool" where
  "scalar_fields kvs =
     (scalar (own_property kvs ''id'') \<and> scalar (own_property kvs ''subject'')
      \<and> scalar (own_property kvs ''sender'') \<and> scalar (own_property kvs ''date''))"

definition object_field :: "(string \<times> js_value) list \<Rightarrow> bool" where
  "object_field kvs =
     (is_object (own_property kvs ''subject'') \<or> is_object (own_property kvs ''sender'')
      \<or> is_object (own_property kvs ''date''))"




text \<open>The four requests the dashboard's operations build.\<close>

abbreviation req_emails :: "config \<Rightarrow> js_value \<Rightarrow> request" where
  "req_emails cfg tok \<equiv>
     apiRequest_request cfg ''/api/emails?query=in%3Ainbox&max_results=10'' no_options tok"

abbreviation req_applications :: "config \<Rightarrow> request" where
  "req_applications cfg \<equiv> apiRequest_request cfg ''/api/applications'' no_options Undefined"

abbreviation req_save :: "config \<Rightarrow> js_value \<Rightarrow> js_value \<Rightarrow> request" where
  "req_save cfg tok emailId \<equiv>
     apiRequest_request cfg (''/api/applications/save/'' @ ToString emailId) post_options tok"

abbreviation req_process :: "config \<Rightarrow> js_value \<Rightarrow> request" where
  "req_process cfg tok \<equiv>
     apiRequest_request cfg ''/api/applications/process-latest?query=in%3Ainbox'' post_options tok"

text \<open>
  The four endpoints the specification names, recognised by method and path: GET emails
  (with its query string), GET applications, POST save-application (with the email's
  identifier), POST process-latest-email (with its query string).
\<close>

datatype endpoint = GET_emails | GET_applications | POST_save_application | POST_process_latest_email

definition endpoint_of :: "config \<Rightarrow> request \<Rightarrow> endpoint option" where
  "endpoint_of cfg r =
     (if http_method r = ''GET'' \<and> prefix (API_BASE cfg @ ''/api/emails?'') (url r)
        then Some GET_emails
      else if http_method r = ''GET'' \<and> url r = API_BASE cfg @ ''/api/applications''
        then Some GET_applications
      else if http_method r = ''POST'' \<and> prefix (API_BASE cfg @ ''/api/applications/save/'') (url r)
        then Some POST_save_application
      else if http_method r = ''POST''
              \<and> prefix (API_BASE cfg @ ''/api/applications/process-latest?'') (url r)
        then Some POST_process_latest_email
      else None)"

text \<open>
  The worlds the dashboard reaches when its operations run one after the other, each to
  completion, starting with the load on mount; the token may change between two operations.
\<close>

inductive reachable :: "config \<Rightarrow> world \<Rightarrow> bool" for cfg :: config where
  mount: "reachable cfg (loadApplications cfg bk world0)"
| refresh: "reachable cfg w \<Longrightarrow> reachable cfg (loadApplications cfg bk w)"
| fetch_emails: "reachable cfg w \<Longrightarrow> reachable cfg (handleFetchEmails cfg bk tok w)"
| process_latest: "reachable cfg w \<Longrightarrow> reachable cfg (handleProcessLatest cfg bk tok w)"
| save_email: "reachable cfg w \<Longrightarrow> reachable cfg (handleSaveEmail cfg bk tok emailId w)"

section \<open>What each operation does to the world\<close>

lemmas setters = setEmails_def setApplications_def setLoading_def setError_def
  setProcessingId_def console_error_def

lemmas client_defs = apiRequest_def fetch_def apiRequest_request_def apiRequest_headers_def
  API_BASE_def js_or_def default_arg_def no_options_def post_options_def
  fetchEmails_def fetchEmail_def saveApplication_def getApplications_def
  processLatestEmail_def healthCheck_def loadApplications_def handleFetchEmails_def
  handleProcessLatest_def handleSaveEmail_def no_token_message_def world0_def dashboard0_def
  events_since_def

lemma requests_append: "requests (xs @ ys) = requests xs @ requests ys"
  by (induction xs rule: requests.induct) simp_all

lemma apiRequest_request_default:
  "apiRequest_request cfg ep opts (default_arg tok Null) = apiRequest_request cfg ep opts tok"
  by (simp add: apiRequest_request_def apiRequest_headers_def default_arg_def)

lemma apiRequest_snd:
  "snd (apiRequest cfg bk ep options tok w) =
     w\<lparr>log := log w @ [Fetch (apiRequest_request cfg ep
            (case options of None \<Rightarrow> no_options | Some opts \<Rightarrow> opts) tok)]\<rparr>"
  by (simp add: apiRequest_def fetch_def Let_def apiRequest_request_default
           split: fetch_outcome.splits sum.splits)

lemma apiRequest_fst_cong:
  "requests (log w) = requests (log w') \<Longrightarrow>
     fst (apiRequest cfg bk ep options tok w) = fst (apiRequest cfg bk ep options tok w')"
  by (simp add: apiRequest_def fetch_def Let_def split: fetch_outcome.splits sum.splits)

lemma params_fetch:
  "URLSearchParams [(''query'', Str ''in:inbox''), (''max_results'', Num ''10'')] = ''query=in%3Ainbox&max_results=10''"
  by code_simp

lemma params_process:
  "URLSearchParams [(''query'', Str ''in:inbox'')] = ''query=in%3Ainbox''"
  by code_simp

lemma fetchEmails_snd:
  "snd (fetchEmails cfg bk tok (Str ''in:inbox'') (Num ''10'') w) =
     w\<lparr>log := log w @ [Fetch (req_emails cfg tok)]\<rparr>"
  by (simp add: fetchEmails_def Let_def default_arg_def params_fetch apiRequest_snd)

lemma fetchEmails_fst_cong:
  "requests (log w) = requests (log w') \<Longrightarrow>
     fst (fetchEmails cfg bk tok q m w) = fst (fetchEmails cfg bk tok q m w')"
  unfolding fetchEmails_def Let_def by (rule apiRequest_fst_cong)

lemma getApplications_snd:
  "snd (getApplications cfg bk w) = w\<lparr>log := log w @ [Fetch (req_applications cfg)]\<rparr>"
  by (simp add: getApplications_def apiRequest_snd)

lemma getApplications_fst_cong:
  "requests (log w) = requests (log w') \<Longrightarrow>
     fst (getApplications cfg bk w) = fst (getApplications cfg bk w')"
  unfolding getApplications_def by (rule apiRequest_fst_cong)

lemma processLatestEmail_snd:
  "snd (processLatestEmail cfg bk tok Undefined w) =
     w\<lparr>log := log w @ [Fetch (req_process cfg tok)]\<rparr>"
  by (simp add: processLatestEmail_def Let_def default_arg_def params_process apiRequest_snd)

lemma processLatestEmail_fst_cong:
  "requests (log w) = requests (log w') \<Longrightarrow>
     fst (processLatestEmail cfg bk tok q w) = fst (processLatestEmail cfg bk tok q w')"
  unfolding processLatestEmail_def Let_def by (rule apiRequest_fst_cong)

lemma saveApplication_snd:
  "snd (saveApplication cfg bk tok emailId w) =
     w\<lparr>log := log w @ [Fetch (req_save cfg tok emailId)]\<rparr>"
  by (simp add: saveApplication_def apiRequest_snd)

lemma saveApplication_fst_cong:
  "requests (log w) = requests (log w') \<Longrightarrow>
     fst (saveApplication cfg bk tok emailId w) = fst (saveApplication cfg bk tok emailId w')"
  unfolding saveApplication_def by (rule apiRequest_fst_cong)

lemma loadApplications_run:
  "loadApplications cfg bk w =
     (case fst (getApplications cfg bk w) of
        Inr apps \<Rightarrow>
          w\<lparr>ui := (ui w)\<lparr>applications := apps\<rparr>,
            log := log w @ [Fetch (req_applications cfg), SetApplications apps]\<rparr>
      | Inl err \<Rightarrow>
          w\<lparr>log := log w @ [Fetch (req_applications cfg),
                             ConsoleError ''Failed to load applications:'' err]\<rparr>)"
proof -
  obtain res w' where r: "getApplications cfg bk w = (res, w')"
    by (cases "getApplications cfg bk w")
  with getApplications_snd [of cfg bk w]
  have w': "w' = w\<lparr>log := log w @ [Fetch (req_applications cfg)]\<rparr>" by simp
  show ?thesis
    by (cases res) (simp_all add: loadApplications_def r w' setApplications_def console_error_def)
qed

lemma handleFetchEmails_run:
  assumes "ToBoolean tok"
  shows "handleFetchEmails cfg bk tok w =
     (case fst (fetchEmails cfg bk tok (Str ''in:inbox'') (Num ''10'') w) of
        Inr result \<Rightarrow>
          w\<lparr>ui := (ui w)\<lparr>emails := js_or result (Arr []), loading := False, error := None\<rparr>,
            log := log w @ [SetLoading True, SetError None, Fetch (req_emails cfg tok),
                            SetEmails (js_or result (Arr [])), SetLoading False]\<rparr>
      | Inl err \<Rightarrow>
          w\<lparr>ui := (ui w)\<lparr>loading := False, error := Some (message err)\<rparr>,
            log := log w @ [SetLoading True, SetError None, Fetch (req_emails cfg tok),
                            SetError (Some (message err)), SetLoading False]\<rparr>)"
proof -
  let ?w2 = "setError None (setLoading True w)"
  obtain res w3 where r: "fetchEmails cfg bk tok (Str ''in:inbox'') (Num ''10'') ?w2 = (res, w3)"
    by (cases "fetchEmails cfg bk tok (Str ''in:inbox'') (Num ''10'') ?w2")
  with fetchEmails_snd [of cfg bk tok ?w2]
  have w3: "w3 = ?w2\<lparr>log := log ?w2 @ [Fetch (req_emails cfg tok)]\<rparr>" by simp
  have "requests (log ?w2) = requests (log w)"
    by (simp add: setError_def setLoading_def requests_append)
  from fetchEmails_fst_cong [OF this, of cfg bk tok "Str ''in:inbox''" "Num ''10''"] r
  have res: "fst (fetchEmails cfg bk tok (Str ''in:inbox'') (Num ''10'') w) = res" by simp
  have "handleFetchEmails cfg bk tok w =
          (case res of
             Inr result \<Rightarrow> setLoading False (setEmails (js_or result (Arr [])) w3)
           | Inl err \<Rightarrow> setLoading False (setError (Some (message err)) w3))"
    using assms by (simp add: handleFetchEmails_def Let_def r split: sum.splits)
  then show ?thesis
    by (cases res) (simp_all add: w3 res setError_def setLoading_def setEmails_def)
qed


lemma handleProcessLatest_run:
  assumes "ToBoolean tok"
  shows "handleProcessLatest cfg bk tok w =
     (case fst (processLatestEmail cfg bk tok Undefined w) of
        Inl err \<Rightarrow>
          w\<lparr>ui := (ui w)\<lparr>loading := False, error := Some (message err)\<rparr>,
            log := log w @ [SetLoading True, SetError None, Fetch (req_process cfg tok),
                            SetError (Some (message err)), SetLoading False]\<rparr>
      | Inr _ \<Rightarrow>
          (case fst (getApplications cfg bk (w\<lparr>log := log w @ [Fetch (req_process cfg tok)]\<rparr>)) of
             Inl err \<Rightarrow>
               w\<lparr>ui := (ui w)\<lparr>loading := False, error := None\<rparr>,
                 log := log w @ [SetLoading True, SetError None, Fetch (req_process cfg tok),
                                 Fetch (req_applications cfg),
                                 ConsoleError ''Failed to load applications:'' err,
                                 SetLoading False]\<rparr>
           | Inr apps \<Rightarrow>
               w\<lparr>ui := (ui w)\<lparr>applications := apps, loading := False, error := None\<rparr>,
                 log := log w @ [SetLoading True, SetError None, Fetch (req_process cfg tok),
                                 Fetch (req_applications cfg), SetApplications apps,
                                 SetLoading False]\<rparr>))"
proof -
  let ?w2 = "setError None (setLoading True w)"
  obtain res w3 where r: "processLatestEmail cfg bk tok Undefined ?w2 = (res, w3)"
    by (cases "processLatestEmail cfg bk tok Undefined ?w2")
  with processLatestEmail_snd [of cfg bk tok ?w2]
  have w3: "w3 = ?w2\<lparr>log := log ?w2 @ [Fetch (req_process cfg tok)]\<rparr>" by simp
  have "requests (log ?w2) = requests (log w)"
    by (simp add: setError_def setLoading_def requests_append)
  from processLatestEmail_fst_cong [OF this, of cfg bk tok Undefined] r
  have res: "fst (processLatestEmail cfg bk tok Undefined w) = res" by simp
  have "requests (log w3) = requests (log (w\<lparr>log := log w @ [Fetch (req_process cfg tok)]\<rparr>))"
    by (simp add: w3 setError_def setLoading_def requests_append)
  from getApplications_fst_cong [OF this, of cfg bk]
  have apps: "fst (getApplications cfg bk w3) =
              fst (getApplications cfg bk (w\<lparr>log := log w @ [Fetch (req_process cfg tok)]\<rparr>))" .
  have step: "handleProcessLatest cfg bk tok w =
          (case res of
             Inr _ \<Rightarrow> setLoading False (loadApplications cfg bk w3)
           | Inl err \<Rightarrow> setLoading False (setError (Some (message err)) w3))"
    using assms by (simp add: handleProcessLatest_def Let_def r split: sum.splits)
  show ?thesis
  proof (cases res)
    case (Inl err)
    with step show ?thesis
      by (simp add: w3 res setError_def setLoading_def)
  next
    case (Inr v)
    with step have "handleProcessLatest cfg bk tok w = setLoading False (loadApplications cfg bk w3)"
      by simp
    also have "\<dots> = setLoading False
        (case fst (getApplications cfg bk (w\<lparr>log := log w @ [Fetch (req_process cfg tok)]\<rparr>)) of
           Inr apps \<Rightarrow>
             w3\<lparr>ui := (ui w3)\<lparr>applications := apps\<rparr>,
               log := log w3 @ [Fetch (req_applications cfg), SetApplications apps]\<rparr>
         | Inl err \<Rightarrow>
             w3\<lparr>log := log w3 @ [Fetch (req_applications cfg),
                                  ConsoleError ''Failed to load applications:'' err]\<rparr>)"
      by (simp only: loadApplications_run [of cfg bk w3] apps)
    finally show ?thesis
      by (simp add: res Inr w3 setError_def setLoading_def split: sum.splits)
  qed
qed

lemma handleSaveEmail_run:
  assumes "ToBoolean tok"
  shows "handleSaveEmail cfg bk tok emailId w =
     (case fst (saveApplication cfg bk tok emailId w) of
        Inl err \<Rightarrow>
          w\<lparr>ui := (ui w)\<lparr>error := Some (message err), processingId := Null\<rparr>,
            log := log w @ [SetProcessingId emailId, Fetch (req_save cfg tok emailId),
                            SetError (Some (message err)), SetProcessingId Null]\<rparr>
      | Inr _ \<Rightarrow>
          (case fst (getApplications cfg bk
                      (w\<lparr>log := log w @ [Fetch (req_save cfg tok emailId)]\<rparr>)) of
             Inl err \<Rightarrow>
               w\<lparr>ui := (ui w)\<lparr>processingId := Null\<rparr>,
                 log := log w @ [SetProcessingId emailId, Fetch (req_save cfg tok emailId),
                                 Fetch (req_applications cfg),
                                 ConsoleError ''Failed to load applications:'' err,
                                 SetProcessingId Null]\<rparr>
           | Inr apps \<Rightarrow>
               w\<lparr>ui := (ui w)\<lparr>applications := apps, processingId := Null\<rparr>,
                 log := log w @ [SetProcessingId emailId, Fetch (req_save cfg tok emailId),
                                 Fetch (req_applications cfg), SetApplications apps,
                                 SetProcessingId Null]\<rparr>))"
proof -
  let ?w1 = "setProcessingId emailId w"
  let ?wr = "w\<lparr>log := log w @ [Fetch (req_save cfg tok emailId)]\<rparr>"
  obtain res w2 where r: "saveApplication cfg bk tok emailId ?w1 = (res, w2)"
    by (cases "saveApplication cfg bk tok emailId ?w1")
  with saveApplication_snd [of cfg bk tok emailId ?w1]
  have w2: "w2 = ?w1\<lparr>log := log ?w1 @ [Fetch (req_save cfg tok emailId)]\<rparr>" by simp
  have "requests (log ?w1) = requests (log w)"
    by (simp add: setProcessingId_def requests_append)
  from saveApplication_fst_cong [OF this, of cfg bk tok emailId] r
  have res: "fst (saveApplication cfg bk tok emailId w) = res" by simp
  have "requests (log w2) = requests (log ?wr)"
    by (simp add: w2 setProcessingId_def requests_append)
  from getApplications_fst_cong [OF this, of cfg bk]
  have apps: "fst (getApplications cfg bk w2) = fst (getApplications cfg bk ?wr)" .
  have step: "handleSaveEmail cfg bk tok emailId w =
          (case res of
             Inr _ \<Rightarrow> setProcessingId Null (loadApplications cfg bk w2)
           | Inl err \<Rightarrow> setProcessingId Null (setError (Some (message err)) w2))"
    using assms by (simp add: handleSaveEmail_def Let_def r split: sum.splits)
  show ?thesis
  proof (cases res)
    case (Inl err)
    with step show ?thesis
      by (simp add: w2 res setError_def setProcessingId_def)
  next
    case (Inr v)
    with step have "handleSaveEmail cfg bk tok emailId w =
                      setProcessingId Null (loadApplications cfg bk w2)"
      by simp
    also have "\<dots> = setProcessingId Null
        (case fst (getApplications cfg bk ?wr) of
           Inr apps \<Rightarrow>
             w2\<lparr>ui := (ui w2)\<lparr>applications := apps\<rparr>,
               log := log w2 @ [Fetch (req_applications cfg), SetApplications apps]\<rparr>
         | Inl err \<Rightarrow>
             w2\<lparr>log := log w2 @ [Fetch (req_applications cfg),
                                  ConsoleError ''Failed to load applications:'' err]\<rparr>)"
      by (simp only: loadApplications_run [of cfg bk w2] apps)
    finally show ?thesis
      by (simp add: res Inr w2 setProcessingId_def split: sum.splits)
  qed
qed

lemma handleFetchEmails_no_token:
  "\<not> ToBoolean tok \<Longrightarrow>
     handleFetchEmails cfg bk tok w =
       w\<lparr>ui := (ui w)\<lparr>error := Some no_token_message\<rparr>,
         log := log w @ [SetError (Some no_token_message)]\<rparr>"
  by (simp add: handleFetchEmails_def setError_def)

lemma handleProcessLatest_no_token:
  "\<not> ToBoolean tok \<Longrightarrow>
     handleProcessLatest cfg bk tok w =
       w\<lparr>ui := (ui w)\<lparr>error := Some no_token_message\<rparr>,
         log := log w @ [SetError (Some no_token_message)]\<rparr>"
  by (simp add: handleProcessLatest_def setError_def)

lemma handleSaveEmail_no_token:
  "\<not> ToBoolean tok \<Longrightarrow> handleSaveEmail cfg bk tok emailId w = w"
  by (simp add: handleSaveEmail_def)

lemma events_since_append [simp]:
  "events_since w (w\<lparr>ui := d, log := log w @ evs\<rparr>) = evs"
  "events_since w (w\<lparr>log := log w @ evs\<rparr>) = evs"
  "events_since w w = []"
  by (simp_all add: events_since_def)

lemma map_of_fold_update:
  "k \<notin> fst ` set xs \<Longrightarrow> map_of (fold (\<lambda>(k, v). AList.update k v) xs ys) k = map_of ys k"
  by (induction xs arbitrary: ys) (auto simp: update_conv')

lemma authorization_apiRequest_request:
  "''Authorization'' \<notin> fst ` set (opt_headers opts) \<Longrightarrow>
     authorization (apiRequest_request cfg ep opts tok) =
       (if ToBoolean tok then Some (''Bearer '' @ ToString tok) else None)"
  by (simp add: authorization_def apiRequest_request_def apiRequest_headers_def Let_def
        update_conv' map_of_fold_update)

lemma ui_world0 [simp]: "ui world0 = dashboard0"
  by (simp add: world0_def)

lemma log_world0 [simp]: "log world0 = []"
  by (simp add: world0_def)

lemma endpoint_of_apiRequest_request:
  "endpoint_of cfg (apiRequest_request cfg ep opts tok) =
     (if opt_method opts = None \<and> prefix ''/api/emails?'' ep then Some GET_emails
      else if opt_method opts = None \<and> ep = ''/api/applications'' then Some GET_applications
      else if opt_method opts = Some ''POST'' \<and> prefix ''/api/applications/save/'' ep
        then Some POST_save_application
      else if opt_method opts = Some ''POST'' \<and> prefix ''/api/applications/process-latest?'' ep
        then Some POST_process_latest_email
      else None)"
  if "opt_method opts = None \<or> opt_method opts = Some ''POST''"
  using that by (auto simp: endpoint_of_def apiRequest_request_def)

lemma string_coercion_ToString:
  "string_coercion v = Inr s \<Longrightarrow> ToString v = s"
  "string_coercions vs = Inr ss \<Longrightarrow>
     map (\<lambda>x. if x = Null \<or> x = Undefined then [] else ToString x) vs = ss"
  by (induction v and vs arbitrary: s and ss rule: string_coercion_string_coercions.induct)
     (auto split: sum.splits if_splits)

lemma string_coercion_scalar: "scalar v \<Longrightarrow> string_coercion v = Inr (ToString v)"
  by (cases v) simp_all

lemma react_child_scalar: "scalar v \<Longrightarrow> react_child v = Inr (scalar_text v)"
  by (cases v) simp_all

lemma scalar_js_or: "scalar v \<Longrightarrow> scalar (js_or v (Str s))"
  by (simp add: js_or_def)

lemma get_property_Obj: "get_property (Obj kvs) p = Inr (own_property kvs p)"
  by (simp add: own_property_def split: option.splits)

lemma email_jsx_scalar:
  "scalar_fields kvs \<Longrightarrow>
     email_jsx (Obj kvs) =
       Inr \<lparr>element_key = row_key (shown_row kvs),
            subject_child = js_or (own_property kvs ''subject'') (Str ''No Subject''),
            sender_child = own_property kvs ''sender'',
            date_child = own_property kvs ''date''\<rparr>"
  by (simp add: email_jsx_def get_property_Obj scalar_fields_def shown_row_def
        string_coercion_scalar del: get_property.simps)

lemma emails_map_scalar:
  "list_all scalar_fields objs \<Longrightarrow>
     emails_map (map Obj objs) =
       Inr (map (\<lambda>kvs. \<lparr>element_key = row_key (shown_row kvs),
            subject_child = js_or (own_property kvs ''subject'') (Str ''No Subject''),
            sender_child = own_property kvs ''sender'',
            date_child = own_property kvs ''date''\<rparr>) objs)"
  by (induction objs) (simp_all add: email_jsx_scalar)

lemma render_rows_scalar:
  "list_all scalar_fields objs \<Longrightarrow>
     render_rows (map (\<lambda>kvs. \<lparr>element_key = row_key (shown_row kvs),
            subject_child = js_or (own_property kvs ''subject'') (Str ''No Subject''),
            sender_child = own_property kvs ''sender'',
            date_child = own_property kvs ''date''\<rparr>) objs)
       = Inr (map shown_row objs)"
  by (induction objs)
     (simp_all add: render_email_def react_child_scalar scalar_js_or scalar_fields_def
        shown_row_def)

lemma render_emails_scalar:
  "objs \<noteq> [] \<Longrightarrow> list_all scalar_fields objs \<Longrightarrow>
     render_emails (Arr (map Obj objs)) = Inr (Rows (map shown_row objs))"
  by (simp add: emails_map_scalar render_rows_scalar)

lemma react_child_object: "is_object v \<Longrightarrow> isl (react_child v)"
  by (cases v) simp_all

lemma is_object_js_or: "is_object v \<Longrightarrow> js_or v d = v"
  by (cases v) (simp_all add: js_or_def)

lemma render_email_object:
  "is_object (subject_child el) \<or> is_object (sender_child el) \<or> is_object (date_child el)
     \<Longrightarrow> isl (render_email el)"
  by (auto simp: render_email_def dest: react_child_object split: sum.splits)

lemma email_jsx_children:
  "email_jsx (Obj kvs) = Inr el \<Longrightarrow>
     subject_child el = js_or (own_property kvs ''subject'') (Str ''No Subject'')
     \<and> sender_child el = own_property kvs ''sender''
     \<and> date_child el = own_property kvs ''date''"
  by (auto simp: email_jsx_def get_property_Obj simp del: get_property.simps
        split: sum.splits if_splits)

lemma render_rows_object:
  "emails_map (map Obj objs) = Inr els \<Longrightarrow> kvs \<in> set objs \<Longrightarrow> object_field kvs
     \<Longrightarrow> isl (render_rows els)"
proof (induction objs arbitrary: els)
  case Nil
  then show ?case by simp
next
  case (Cons o1 objs)
  from Cons.prems(1) obtain el rest where
    el: "email_jsx (Obj o1) = Inr el" and rest: "emails_map (map Obj objs) = Inr rest"
    and els: "els = el # rest"
    by (auto split: sum.splits)
  show ?case
  proof (cases "kvs = o1")
    case True
    with el Cons.prems(3) have "isl (render_email el)"
      using email_jsx_children [OF el] render_email_object [of el]
      by (auto simp: object_field_def is_object_js_or)
    then show ?thesis by (auto simp: els isl_def)
  next
    case False
    with Cons.prems(2) have "kvs \<in> set objs" by simp
    from Cons.IH [OF rest this Cons.prems(3)] show ?thesis
      by (auto simp: els isl_def split: sum.splits)
  qed
qed

lemma render_emails_object:
  "kvs \<in> set objs \<Longrightarrow> object_field kvs \<Longrightarrow> isl (render_emails (Arr (map Obj objs)))"
proof -
  assume k: "kvs \<in> set objs" and o: "object_field kvs"
  then have ne: "objs \<noteq> []" by auto
  show ?thesis
  proof (cases "emails_map (map Obj objs)")
    case (Inl e)
    with ne show ?thesis by simp
  next
    case (Inr els)
    from render_rows_object [OF Inr k o] Inr ne show ?thesis
      by (auto simp: isl_def)
  qed
qed



lemma endpoint_of_requests:
  "endpoint_of cfg (req_emails cfg tok) = Some GET_emails
   \<and> endpoint_of cfg (req_applications cfg) = Some GET_applications
   \<and> endpoint_of cfg (req_save cfg tok emailId) = Some POST_save_application
   \<and> endpoint_of cfg (req_process cfg tok) = Some POST_process_latest_email"
  by (simp add: endpoint_of_apiRequest_request no_options_def post_options_def)

text \<open>The trace explains the state: replaying what an operation logged gives its final state.\<close>

lemma trace_explains_state:
  "ui (loadApplications cfg bk w)
     = fold apply_event (events_since w (loadApplications cfg bk w)) (ui w)"
  "ui (handleFetchEmails cfg bk tok w)
     = fold apply_event (events_since w (handleFetchEmails cfg bk tok w)) (ui w)"
  "ui (handleProcessLatest cfg bk tok w)
     = fold apply_event (events_since w (handleProcessLatest cfg bk tok w)) (ui w)"
  "ui (handleSaveEmail cfg bk tok emailId w)
     = fold apply_event (events_since w (handleSaveEmail cfg bk tok emailId w)) (ui w)"
proof -
  show "ui (loadApplications cfg bk w)
     = fold apply_event (events_since w (loadApplications cfg bk w)) (ui w)"
    by (simp add: loadApplications_run split: sum.splits)
  show "ui (handleFetchEmails cfg bk tok w)
     = fold apply_event (events_since w (handleFetchEmails cfg bk tok w)) (ui w)"
    by (cases "ToBoolean tok")
       (simp_all add: handleFetchEmails_run handleFetchEmails_no_token split: sum.splits)
  show "ui (handleProcessLatest cfg bk tok w)
     = fold apply_event (events_since w (handleProcessLatest cfg bk tok w)) (ui w)"
    by (cases "ToBoolean tok")
       (simp_all add: handleProcessLatest_run handleProcessLatest_no_token split: sum.splits)
  show "ui (handleSaveEmail cfg bk tok emailId w)
     = fold apply_event (events_since w (handleSaveEmail cfg bk tok emailId w)) (ui w)"
    by (cases "ToBoolean tok")
       (simp_all add: handleSaveEmail_run handleSaveEmail_no_token split: sum.splits)
qed

section \<open>Properties of the client\<close>

text \<open>
  C9. When \<open>providerToken\<close> is null, \<open>handleFetchEmails\<close> and
  \<open>handleProcessLatest\<close> set the error state to the message "No Gmail token
  available. Please sign in again." and return: the only event is that one
  \<open>setError\<close>, no request is issued and no other state cell changes.
  \<open>handleSaveEmail\<close> returns the world as it found it: no request, no state change,
  no message.
\<close>

theorem no_token_early_return:
  "handleFetchEmails cfg bk Null w =
     w\<lparr>ui := (ui w)\<lparr>error := Some ''No Gmail token available. Please sign in again.''\<rparr>,
       log := log w @ [SetError (Some ''No Gmail token available. Please sign in again.'')]\<rparr>
   \<and> handleProcessLatest cfg bk Null w =
     w\<lparr>ui := (ui w)\<lparr>error := Some ''No Gmail token available. Please sign in again.''\<rparr>,
       log := log w @ [SetError (Some ''No Gmail token available. Please sign in again.'')]\<rparr>
   \<and> handleSaveEmail cfg bk Null emailId w = w
   \<and> requests (events_since w (handleFetchEmails cfg bk Null w)) = []
   \<and> requests (events_since w (handleProcessLatest cfg bk Null w)) = []
   \<and> requests (events_since w (handleSaveEmail cfg bk Null emailId w)) = []"
  by (simp add: handleFetchEmails_no_token handleProcessLatest_no_token handleSaveEmail_no_token
        no_token_message_def)

theorem no_token_early_return_witness:
  "ui (handleFetchEmails \<lparr>VITE_API_URL = Undefined\<rparr> (\<lambda>_ _. Response True (Inr (Arr []))) Null world0)
     = dashboard0\<lparr>error := Some ''No Gmail token available. Please sign in again.''\<rparr>
   \<and> log (handleProcessLatest \<lparr>VITE_API_URL = Undefined\<rparr> (\<lambda>_ _. Response True (Inr (Arr []))) Null world0)
     = [SetError (Some ''No Gmail token available. Please sign in again.'')]
   \<and> handleSaveEmail \<lparr>VITE_API_URL = Undefined\<rparr> (\<lambda>_ _. Response True (Inr (Arr []))) Null (Num ''7'') world0
     = world0"
  using no_token_early_return [of "\<lparr>VITE_API_URL = Undefined\<rparr>" "\<lambda>_ _. Response True (Inr (Arr []))" world0 "Num ''7''"]
  by (simp add: world0_def)

text \<open>
  C5. Every invocation of \<open>apiRequest\<close> performs exactly one \<open>fetch\<close>, whatever the
  backend answers, and does nothing else to the world; on a response that is not ok it
  throws. Each of the six exported functions is one such invocation. No operation of the
  dashboard tries again: when its call has thrown, that call's request is the only one the
  operation has issued.
\<close>

theorem apiRequest_one_fetch:
  "events_since w (snd (apiRequest cfg bk ep options tok w)) =
     [Fetch (apiRequest_request cfg ep (case options of None \<Rightarrow> no_options | Some opts \<Rightarrow> opts) tok)]
   \<and> ui (snd (apiRequest cfg bk ep options tok w)) = ui w
   \<and> (bk (requests (log w))
          (apiRequest_request cfg ep (case options of None \<Rightarrow> no_options | Some opts \<Rightarrow> opts) tok)
        = Response False body
      \<longrightarrow> isl (fst (apiRequest cfg bk ep options tok w)))
   \<and> length (requests (events_since w (snd (fetchEmails cfg bk tok query maxResults w)))) = 1
   \<and> length (requests (events_since w (snd (fetchEmail cfg bk tok emailId w)))) = 1
   \<and> length (requests (events_since w (snd (saveApplication cfg bk tok emailId w)))) = 1
   \<and> length (requests (events_since w (snd (getApplications cfg bk w)))) = 1
   \<and> length (requests (events_since w (snd (processLatestEmail cfg bk tok query w)))) = 1
   \<and> length (requests (events_since w (snd (healthCheck cfg bk w)))) = 1
   \<and> (ToBoolean tok \<and> isl (fst (fetchEmails cfg bk tok (Str ''in:inbox'') (Num ''10'') w))
      \<longrightarrow> requests (events_since w (handleFetchEmails cfg bk tok w)) = [req_emails cfg tok])
   \<and> (ToBoolean tok \<and> isl (fst (processLatestEmail cfg bk tok Undefined w))
      \<longrightarrow> requests (events_since w (handleProcessLatest cfg bk tok w)) = [req_process cfg tok])
   \<and> (ToBoolean tok \<and> isl (fst (saveApplication cfg bk tok emailId w))
      \<longrightarrow> requests (events_since w (handleSaveEmail cfg bk tok emailId w)) = [req_save cfg tok emailId])
   \<and> (isl (fst (getApplications cfg bk w))
      \<longrightarrow> requests (events_since w (loadApplications cfg bk w)) = [req_applications cfg])"
proof -
  have throws: "bk (requests (log w))
          (apiRequest_request cfg ep (case options of None \<Rightarrow> no_options | Some opts \<Rightarrow> opts) tok)
        = Response False body
      \<Longrightarrow> isl (fst (apiRequest cfg bk ep options tok w))"
    by (simp add: apiRequest_def fetch_def Let_def apiRequest_request_default
          split: sum.splits)
  have h1: "ToBoolean tok \<Longrightarrow> isl (fst (fetchEmails cfg bk tok (Str ''in:inbox'') (Num ''10'') w))
      \<Longrightarrow> requests (events_since w (handleFetchEmails cfg bk tok w)) = [req_emails cfg tok]"
    by (auto simp: handleFetchEmails_run isl_def)
  have h2: "ToBoolean tok \<Longrightarrow> isl (fst (processLatestEmail cfg bk tok Undefined w))
      \<Longrightarrow> requests (events_since w (handleProcessLatest cfg bk tok w)) = [req_process cfg tok]"
    by (auto simp: handleProcessLatest_run isl_def)
  have h3: "ToBoolean tok \<Longrightarrow> isl (fst (saveApplication cfg bk tok emailId w))
      \<Longrightarrow> requests (events_since w (handleSaveEmail cfg bk tok emailId w)) = [req_save cfg tok emailId]"
    by (auto simp: handleSaveEmail_run isl_def)
  have h4: "isl (fst (getApplications cfg bk w))
      \<Longrightarrow> requests (events_since w (loadApplications cfg bk w)) = [req_applications cfg]"
    by (auto simp: loadApplications_run isl_def)
  show ?thesis
    using throws h1 h2 h3 h4
    by (simp add: apiRequest_snd fetchEmails_def fetchEmail_def saveApplication_def
          getApplications_def processLatestEmail_def healthCheck_def Let_def)
qed


theorem apiRequest_one_fetch_witness:
  "events_since world0
      (snd (apiRequest \<lparr>VITE_API_URL = Undefined\<rparr>
             (\<lambda>_ _. Response False (Inr (Obj [(''detail'', Str ''Gmail quota exceeded'')])))
             ''/api/applications'' None Undefined world0))
     = [Fetch \<lparr>url = ''http://localhost:8000/api/applications'', http_method = ''GET'',
               headers = [(''Content-Type'', ''application/json'')]\<rparr>]
   \<and> fst (apiRequest \<lparr>VITE_API_URL = Undefined\<rparr>
             (\<lambda>_ _. Response False (Inr (Obj [(''detail'', Str ''Gmail quota exceeded'')])))
             ''/api/applications'' None Undefined world0)
     = Inl (JsError ''Error'' ''Gmail quota exceeded'')
   \<and> isl (fst (apiRequest \<lparr>VITE_API_URL = Undefined\<rparr>
             (\<lambda>_ _. Response False (Inr (Obj [(''detail'', Str ''Gmail quota exceeded'')])))
             ''/api/applications'' None Undefined world0))
   \<and> requests (events_since world0
        (handleProcessLatest \<lparr>VITE_API_URL = Undefined\<rparr>
           (\<lambda>_ _. Response False (Inr (Obj [(''detail'', Str ''Gmail quota exceeded'')])))
           (Str ''ya29.token'') world0))
     = [\<lparr>url = ''http://localhost:8000/api/applications/process-latest?query=in%3Ainbox'',
         http_method = ''POST'',
         headers = [(''Content-Type'', ''application/json''),
                    (''Authorization'', ''Bearer ya29.token'')]\<rparr>]"
proof -
  let ?cfg = "\<lparr>VITE_API_URL = Undefined\<rparr>"
  let ?bk = "\<lambda>(_::request list) (_::request).
               Response False (Inr (Obj [(''detail'', Str ''Gmail quota exceeded'')]))"
  have throws: "isl (fst (processLatestEmail ?cfg ?bk (Str ''ya29.token'') Undefined world0))"
    by (simp add: client_defs Let_def params_process)
  have res: "fst (apiRequest ?cfg ?bk ''/api/applications'' None Undefined world0)
               = Inl (JsError ''Error'' ''Gmail quota exceeded'')"
    by (simp add: client_defs Let_def)
  from apiRequest_one_fetch [where w = world0 and cfg = ?cfg and bk = ?bk
      and ep = "''/api/applications''" and options = None and tok = Undefined
      and body = "Inr (Obj [(''detail'', Str ''Gmail quota exceeded'')])"]
  have a: "events_since world0 (snd (apiRequest ?cfg ?bk ''/api/applications'' None Undefined world0))
     = [Fetch (apiRequest_request ?cfg ''/api/applications'' no_options Undefined)]"
    and c: "isl (fst (apiRequest ?cfg ?bk ''/api/applications'' None Undefined world0))"
    by simp_all
  from apiRequest_one_fetch [where w = world0 and cfg = ?cfg and bk = ?bk
      and tok = "Str ''ya29.token''"] throws
  have b: "requests (events_since world0 (handleProcessLatest ?cfg ?bk (Str ''ya29.token'') world0))
     = [req_process ?cfg (Str ''ya29.token'')]"
    by simp
  show ?thesis
    using a b c res
    by (simp add: apiRequest_request_def apiRequest_headers_def API_BASE_def js_or_def
          no_options_def post_options_def)
qed

text \<open>
  C8. As stated the claim fails: the guard is \<open>if (token)\<close>, and the empty string is a
  token that is not null and is not sent.
\<close>

theorem empty_token_sends_no_authorization:
  "Str [] \<noteq> Null
   \<and> requests (events_since world0
        (snd (fetchEmails \<lparr>VITE_API_URL = Undefined\<rparr> (\<lambda>_ _. Response True (Inr (Arr [])))
               (Str []) Undefined Undefined world0)))
     = [\<lparr>url = ''http://localhost:8000/api/emails?query=in%3Ainbox&max_results=10'',
         http_method = ''GET'',
         headers = [(''Content-Type'', ''application/json'')]\<rparr>]"
  by (simp add: client_defs Let_def params_fetch)

text \<open>
  C8, amended. \<open>apiRequest\<close> attaches \<open>Authorization: Bearer token\<close> if and only if
  the token is truthy (neither null, nor omitted, nor the empty string), the caller's own
  headers holding no \<open>Authorization\<close>. \<open>getApplications\<close> and \<open>healthCheck\<close>
  always send their request without the header; \<open>fetchEmails\<close>, \<open>fetchEmail\<close>,
  \<open>saveApplication\<close> and \<open>processLatestEmail\<close> send the caller's token as bearer
  whenever it is truthy, and no header otherwise.
\<close>

theorem authorization_iff_truthy_token:
  "(''Authorization'' \<notin> fst ` set (opt_headers opts) \<longrightarrow>
      map authorization (requests (events_since w (snd (apiRequest cfg bk ep (Some opts) tok w))))
        = [if ToBoolean tok then Some (''Bearer '' @ ToString tok) else None])
   \<and> map authorization (requests (events_since w (snd (apiRequest cfg bk ep None tok w))))
        = [if ToBoolean tok then Some (''Bearer '' @ ToString tok) else None]
   \<and> map authorization (requests (events_since w (snd (getApplications cfg bk w)))) = [None]
   \<and> map authorization (requests (events_since w (snd (healthCheck cfg bk w)))) = [None]
   \<and> map authorization (requests (events_since w (snd (fetchEmails cfg bk tok query maxResults w))))
        = [if ToBoolean tok then Some (''Bearer '' @ ToString tok) else None]
   \<and> map authorization (requests (events_since w (snd (fetchEmail cfg bk tok emailId w))))
        = [if ToBoolean tok then Some (''Bearer '' @ ToString tok) else None]
   \<and> map authorization (requests (events_since w (snd (saveApplication cfg bk tok emailId w))))
        = [if ToBoolean tok then Some (''Bearer '' @ ToString tok) else None]
   \<and> map authorization (requests (events_since w (snd (processLatestEmail cfg bk tok query w))))
        = [if ToBoolean tok then Some (''Bearer '' @ ToString tok) else None]"
proof -
  have none: "''Authorization'' \<notin> fst ` set (opt_headers no_options)"
    by (simp add: no_options_def)
  have post: "''Authorization'' \<notin> fst ` set (opt_headers post_options)"
    by (simp add: post_options_def)
  show ?thesis
    by (simp add: apiRequest_snd authorization_apiRequest_request none post
          getApplications_def healthCheck_def fetchEmails_def fetchEmail_def
          saveApplication_def processLatestEmail_def Let_def)
qed

theorem authorization_iff_truthy_token_witness:
  "map authorization (requests (events_since world0
      (snd (apiRequest \<lparr>VITE_API_URL = Undefined\<rparr> (\<lambda>_ _. Response True (Inr (Arr [])))
             ''/api/emails/42'' (Some \<lparr>opt_method = None, opt_headers = [(''Accept'', ''application/json'')]\<rparr>)
             (Str ''ya29.token'') world0))))
     = [Some ''Bearer ya29.token'']
   \<and> map authorization (requests (events_since world0
      (snd (saveApplication \<lparr>VITE_API_URL = Undefined\<rparr> (\<lambda>_ _. Response True (Inr (Arr [])))
             Null (Num ''42'') world0))))
     = [None]"
  using authorization_iff_truthy_token [where opts = "\<lparr>opt_method = None, opt_headers = [(''Accept'', ''application/json'')]\<rparr>"
      and w = world0 and cfg = "\<lparr>VITE_API_URL = Undefined\<rparr>"
      and bk = "\<lambda>_ _. Response True (Inr (Arr []))" and ep = "''/api/emails/42''"
      and tok = "Str ''ya29.token''"]
    authorization_iff_truthy_token [where
      w = world0 and cfg = "\<lparr>VITE_API_URL = Undefined\<rparr>"
      and bk = "\<lambda>_ _. Response True (Inr (Arr []))" and emailId = "Num ''42''"
      and tok = Null]
  by simp

text \<open>
  C4. As stated the claim fails twice. The guard is \<open>!providerToken\<close>: with the empty
  string, a token that is not null, the handler only reports the missing token and never
  sets \<open>loading\<close>. And the list is \<open>result || []\<close>: when the backend answers
  \<open>null\<close> the emails state holds the empty list, not the response.
\<close>

theorem fetch_emails_empty_token_or_null_response:
  "Str [] \<noteq> Null
   \<and> log (handleFetchEmails \<lparr>VITE_API_URL = Undefined\<rparr> (\<lambda>_ _. Response True (Inr (Arr [])))
          (Str []) world0)
     = [SetError (Some ''No Gmail token available. Please sign in again.'')]
   \<and> fst (fetchEmails \<lparr>VITE_API_URL = Undefined\<rparr> (\<lambda>_ _. Response True (Inr Null))
          (Str ''ya29.token'') (Str ''in:inbox'') (Num ''10'') world0) = Inr Null
   \<and> emails (ui (handleFetchEmails \<lparr>VITE_API_URL = Undefined\<rparr> (\<lambda>_ _. Response True (Inr Null))
          (Str ''ya29.token'') world0)) = Arr []"
  by (simp add: client_defs setters Let_def params_fetch)

text \<open>
  C4, amended. When \<open>handleFetchEmails\<close> runs with a truthy \<open>providerToken\<close>, it
  first sets \<open>loading\<close> to true and clears the error, and that is the state on screen
  while the request is pending; afterwards either the call returned and the emails state
  holds the response (the empty list when the response is falsy) with the error still
  null, or the call threw and the error state holds the error's message; in both outcomes
  \<open>loading\<close> is false when the handler finishes.
\<close>

theorem handleFetchEmails_spinner_then_list_or_error:
  assumes "ToBoolean providerToken"
  shows "take 2 (events_since w (handleFetchEmails cfg bk providerToken w))
           = [SetLoading True, SetError None]
   \<and> pending (ui w) (events_since w (handleFetchEmails cfg bk providerToken w))
           = [(ui w)\<lparr>loading := True, error := None\<rparr>]
   \<and> (case fst (fetchEmails cfg bk providerToken (Str ''in:inbox'') (Num ''10'') w) of
         Inr result \<Rightarrow>
           ui (handleFetchEmails cfg bk providerToken w)
             = (ui w)\<lparr>emails := (if ToBoolean result then result else Arr []),
                       loading := False, error := None\<rparr>
       | Inl err \<Rightarrow>
           ui (handleFetchEmails cfg bk providerToken w)
             = (ui w)\<lparr>loading := False, error := Some (message err)\<rparr>)
   \<and> loading (ui (handleFetchEmails cfg bk providerToken w)) = False"
  using assms
  by (simp add: handleFetchEmails_run js_or_def split: sum.splits)

theorem handleFetchEmails_spinner_then_list_or_error_witness:
  "pending dashboard0
      (events_since world0
         (handleFetchEmails \<lparr>VITE_API_URL = Undefined\<rparr>
            (\<lambda>_ _. Response True (Inr (Arr [Obj [(''id'', Str ''18c'')]])))
            (Str ''ya29.token'') world0))
     = [dashboard0\<lparr>loading := True, error := None\<rparr>]
   \<and> ui (handleFetchEmails \<lparr>VITE_API_URL = Undefined\<rparr>
            (\<lambda>_ _. Response True (Inr (Arr [Obj [(''id'', Str ''18c'')]])))
            (Str ''ya29.token'') world0)
     = dashboard0\<lparr>emails := Arr [Obj [(''id'', Str ''18c'')]], loading := False, error := None\<rparr>
   \<and> ui (handleFetchEmails \<lparr>VITE_API_URL = Undefined\<rparr>
            (\<lambda>_ _. Rejected (JsError ''TypeError'' ''Failed to fetch''))
            (Str ''ya29.token'') world0)
     = dashboard0\<lparr>loading := False, error := Some ''Failed to fetch''\<rparr>"
proof -
  let ?cfg = "\<lparr>VITE_API_URL = Undefined\<rparr>"
  let ?ok = "\<lambda>(_::request list) (_::request). Response True (Inr (Arr [Obj [(''id'', Str ''18c'')]]))"
  let ?down = "\<lambda>(_::request list) (_::request). Rejected (JsError ''TypeError'' ''Failed to fetch'')"
  have t: "ToBoolean (Str ''ya29.token'')" by simp
  have r1: "fst (fetchEmails ?cfg ?ok (Str ''ya29.token'') (Str ''in:inbox'') (Num ''10'') world0)
              = Inr (Arr [Obj [(''id'', Str ''18c'')]])"
    by (simp add: client_defs Let_def)
  have r2: "fst (fetchEmails ?cfg ?down (Str ''ya29.token'') (Str ''in:inbox'') (Num ''10'') world0)
              = Inl (JsError ''TypeError'' ''Failed to fetch'')"
    by (simp add: client_defs Let_def)
  show ?thesis
    using handleFetchEmails_spinner_then_list_or_error [OF t, of world0 ?cfg ?ok]
      handleFetchEmails_spinner_then_list_or_error [OF t, of world0 ?cfg ?down]
    by (simp add: r1 r2)
qed

text \<open>
  C10. Every handler that sets a loading indicator resets it. After an invocation of
  \<open>handleFetchEmails\<close> or \<open>handleProcessLatest\<close> that passed the token guard,
  \<open>loading\<close> is false whether the call returned or threw, and after such an invocation
  of \<open>handleSaveEmail\<close> the \<open>processingId\<close> is null. An invocation stopped by the
  guard never sets the indicator. Hence in every world the dashboard reaches by running
  its operations one after the other, \<open>loading\<close> is false and \<open>processingId\<close> is
  null: no operation leaves the dashboard in a loading state.
\<close>

theorem loading_indicators_are_reset:
  "(ToBoolean tok \<longrightarrow> loading (ui (handleFetchEmails cfg bk tok w)) = False)
   \<and> (ToBoolean tok \<longrightarrow> loading (ui (handleProcessLatest cfg bk tok w)) = False)
   \<and> (ToBoolean tok \<longrightarrow> processingId (ui (handleSaveEmail cfg bk tok emailId w)) = Null)
   \<and> (\<not> ToBoolean tok \<longrightarrow>
        loading (ui (handleFetchEmails cfg bk tok w)) = loading (ui w)
        \<and> loading (ui (handleProcessLatest cfg bk tok w)) = loading (ui w)
        \<and> processingId (ui (handleSaveEmail cfg bk tok emailId w)) = processingId (ui w))
   \<and> (reachable cfg w \<longrightarrow> loading (ui w) = False \<and> processingId (ui w) = Null)"
proof -
  have a: "ToBoolean tok \<Longrightarrow> loading (ui (handleFetchEmails cfg bk tok w)) = False" for bk tok w
    by (simp add: handleFetchEmails_run split: sum.splits)
  have b: "ToBoolean tok \<Longrightarrow> loading (ui (handleProcessLatest cfg bk tok w)) = False" for bk tok w
    by (simp add: handleProcessLatest_run split: sum.splits)
  have c: "ToBoolean tok \<Longrightarrow> processingId (ui (handleSaveEmail cfg bk tok emailId w)) = Null"
    for bk tok emailId w
    by (simp add: handleSaveEmail_run split: sum.splits)
  have a': "ToBoolean tok \<Longrightarrow>
      processingId (ui (handleFetchEmails cfg bk tok w)) = processingId (ui w)" for bk tok w
    by (simp add: handleFetchEmails_run split: sum.splits)
  have b': "ToBoolean tok \<Longrightarrow>
      processingId (ui (handleProcessLatest cfg bk tok w)) = processingId (ui w)" for bk tok w
    by (simp add: handleProcessLatest_run split: sum.splits)
  have c': "ToBoolean tok \<Longrightarrow>
      loading (ui (handleSaveEmail cfg bk tok emailId w)) = loading (ui w)" for bk tok emailId w
    by (simp add: handleSaveEmail_run split: sum.splits)
  have l: "loading (ui (loadApplications cfg bk w)) = loading (ui w)
           \<and> processingId (ui (loadApplications cfg bk w)) = processingId (ui w)" for bk w
    by (simp add: loadApplications_run split: sum.splits)
  have inv: "reachable cfg w \<Longrightarrow> loading (ui w) = False \<and> processingId (ui w) = Null"
  proof (induction rule: reachable.induct)
    case (mount bk)
    then show ?case using l [of bk world0] by (simp add: world0_def dashboard0_def)
  next
    case (refresh w bk)
    then show ?case using l [of bk w] by simp
  next
    case (fetch_emails w bk tok)
    then show ?case
      using a [of tok bk w] a' [of tok bk w]
      by (cases "ToBoolean tok") (simp_all add: handleFetchEmails_no_token)
  next
    case (process_latest w bk tok)
    then show ?case
      using b [of tok bk w] b' [of tok bk w]
      by (cases "ToBoolean tok") (simp_all add: handleProcessLatest_no_token)
  next
    case (save_email w bk tok emailId)
    then show ?case
      using c [of tok bk emailId w] c' [of tok bk emailId w]
      by (cases "ToBoolean tok") (simp_all add: handleSaveEmail_no_token)
  qed
  show ?thesis
    using a b c inv
    by (simp add: handleFetchEmails_no_token handleProcessLatest_no_token
          handleSaveEmail_no_token)
qed

theorem loading_indicators_are_reset_witness:
  "loading (ui (handleProcessLatest \<lparr>VITE_API_URL = Undefined\<rparr>
       (\<lambda>_ _. Response False (Inl (JsError ''SyntaxError'' ''Unexpected token <'')))
       (Str ''ya29.token'') world0)) = False
   \<and> processingId (ui (handleSaveEmail \<lparr>VITE_API_URL = Undefined\<rparr>
       (\<lambda>_ _. Response False (Inl (JsError ''SyntaxError'' ''Unexpected token <'')))
       (Str ''ya29.token'') (Str ''18c'') world0)) = Null
   \<and> loading (ui (handleFetchEmails \<lparr>VITE_API_URL = Undefined\<rparr>
       (\<lambda>_ _. Rejected (JsError ''TypeError'' ''Failed to fetch'')) Null
       (loadApplications \<lparr>VITE_API_URL = Undefined\<rparr>
          (\<lambda>_ _. Rejected (JsError ''TypeError'' ''Failed to fetch'')) world0))) = False
   \<and> processingId (ui (handleSaveEmail \<lparr>VITE_API_URL = Undefined\<rparr>
       (\<lambda>_ _. Rejected (JsError ''TypeError'' ''Failed to fetch'')) Null (Str ''18c'') world0))
     = Null"
proof -
  let ?cfg = "\<lparr>VITE_API_URL = Undefined\<rparr>"
  let ?bad = "\<lambda>(_::request list) (_::request).
                Response False (Inl (JsError ''SyntaxError'' ''Unexpected token <''))"
  let ?down = "\<lambda>(_::request list) (_::request). Rejected (JsError ''TypeError'' ''Failed to fetch'')"
  have t: "ToBoolean (Str ''ya29.token'')" by simp
  have r: "reachable ?cfg (handleFetchEmails ?cfg ?down Null (loadApplications ?cfg ?down world0))"
    by (intro reachable.fetch_emails reachable.mount)
  show ?thesis
    using loading_indicators_are_reset [of "Str ''ya29.token''" ?cfg ?bad world0 "Str ''18c''"] t
      loading_indicators_are_reset [of Null ?cfg ?down
        "handleFetchEmails ?cfg ?down Null (loadApplications ?cfg ?down world0)" Null] r
      loading_indicators_are_reset [of Null ?cfg ?down world0 "Str ''18c''"]
    by (simp add: dashboard0_def)
qed

text \<open>
  C1. As stated the claim fails for two of the five operations: \<open>loadApplications\<close>
  catches the error of \<open>getApplications\<close> and only writes it to the console, leaving the
  error state null, and \<open>handleGoogleSignIn\<close> does the same in \<open>App\<close>, which has no
  error state.
\<close>

theorem load_and_sign_in_failures_only_logged:
  "fst (getApplications \<lparr>VITE_API_URL = Undefined\<rparr>
          (\<lambda>_ _. Rejected (JsError ''TypeError'' ''Failed to fetch'')) world0)
     = Inl (JsError ''TypeError'' ''Failed to fetch'')
   \<and> loadApplications \<lparr>VITE_API_URL = Undefined\<rparr>
          (\<lambda>_ _. Rejected (JsError ''TypeError'' ''Failed to fetch'')) world0
     = \<lparr>ui = dashboard0,
        log = [Fetch \<lparr>url = ''http://localhost:8000/api/applications'', http_method = ''GET'',
                      headers = [(''Content-Type'', ''application/json'')]\<rparr>,
               ConsoleError ''Failed to load applications:''
                 (JsError ''TypeError'' ''Failed to fetch'')]\<rparr>
   \<and> error (ui (loadApplications \<lparr>VITE_API_URL = Undefined\<rparr>
          (\<lambda>_ _. Rejected (JsError ''TypeError'' ''Failed to fetch'')) world0)) = None
   \<and> signInWithGoogle (OAuthResolved Null (Some (JsError ''AuthApiError'' ''Provider is not enabled'')))
     = Inl (JsError ''AuthApiError'' ''Provider is not enabled'')
   \<and> handleGoogleSignIn
        (OAuthResolved Null (Some (JsError ''AuthApiError'' ''Provider is not enabled'')))
        \<lparr>signInLoading = False, console = []\<rparr>
     = \<lparr>signInLoading = False,
        console = [(''Sign in error:'', JsError ''AuthApiError'' ''Provider is not enabled'')]\<rparr>"
  by (simp add: client_defs setters Let_def signInWithGoogle_def handleGoogleSignIn_def)

text \<open>
  C1, amended. When the API call of \<open>handleFetchEmails\<close>, \<open>handleProcessLatest\<close> or
  \<open>handleSaveEmail\<close> throws, the error is caught and its message is stored in the error
  state, which the banner shows when it is not empty. When the call of
  \<open>loadApplications\<close> or of \<open>handleGoogleSignIn\<close> throws, the error is caught and
  written to the console with \<open>console.error\<close>; no state cell but
  \<open>signInLoading\<close> changes. No caught failure is dropped without one or the other.
\<close>

theorem thrown_errors_are_caught:
  "(ToBoolean tok \<and> fst (fetchEmails cfg bk tok (Str ''in:inbox'') (Num ''10'') w) = Inl err
      \<longrightarrow> error (ui (handleFetchEmails cfg bk tok w)) = Some (message err))
   \<and> (ToBoolean tok \<and> fst (processLatestEmail cfg bk tok Undefined w) = Inl err
      \<longrightarrow> error (ui (handleProcessLatest cfg bk tok w)) = Some (message err))
   \<and> (ToBoolean tok \<and> fst (saveApplication cfg bk tok emailId w) = Inl err
      \<longrightarrow> error (ui (handleSaveEmail cfg bk tok emailId w)) = Some (message err))
   \<and> (fst (getApplications cfg bk w) = Inl err
      \<longrightarrow> loadApplications cfg bk w
            = w\<lparr>log := log w @ [Fetch (req_applications cfg),
                                ConsoleError ''Failed to load applications:'' err]\<rparr>)
   \<and> (signInWithGoogle out = Inl err
      \<longrightarrow> handleGoogleSignIn out a
            = a\<lparr>console := console a @ [(''Sign in error:'', err)], signInLoading := False\<rparr>)
   \<and> error_banner d = (case error d of None \<Rightarrow> None | Some m \<Rightarrow> if m = [] then None else Some m)"
  by (simp add: handleFetchEmails_run handleProcessLatest_run handleSaveEmail_run
        loadApplications_run handleGoogleSignIn_def error_banner_def split: option.splits)

theorem thrown_errors_are_caught_witness:
  "error (ui (handleSaveEmail \<lparr>VITE_API_URL = Undefined\<rparr>
       (\<lambda>_ _. Response False (Inr (Obj [(''detail'', Str ''Email not found'')])))
       (Str ''ya29.token'') (Str ''18c'') world0)) = Some ''Email not found''
   \<and> error (ui (handleFetchEmails \<lparr>VITE_API_URL = Undefined\<rparr>
       (\<lambda>_ _. Response False (Inr (Obj [(''detail'', Str ''Email not found'')])))
       (Str ''ya29.token'') world0)) = Some ''Email not found''
   \<and> error (ui (handleProcessLatest \<lparr>VITE_API_URL = Undefined\<rparr>
       (\<lambda>_ _. Response False (Inr (Obj [(''detail'', Str ''Email not found'')])))
       (Str ''ya29.token'') world0)) = Some ''Email not found''
   \<and> log (loadApplications \<lparr>VITE_API_URL = Undefined\<rparr>
       (\<lambda>_ _. Response False (Inr (Obj [(''detail'', Str ''Email not found'')]))) world0)
     = [Fetch (req_applications \<lparr>VITE_API_URL = Undefined\<rparr>),
        ConsoleError ''Failed to load applications:'' (JsError ''Error'' ''Email not found'')]
   \<and> handleGoogleSignIn (OAuthRejected (JsError ''Error'' ''Email not found''))
        \<lparr>signInLoading = False, console = []\<rparr>
     = \<lparr>signInLoading = False, console = [(''Sign in error:'', JsError ''Error'' ''Email not found'')]\<rparr>"
proof -
  let ?cfg = "\<lparr>VITE_API_URL = Undefined\<rparr>"
  let ?bk = "\<lambda>(_::request list) (_::request).
               Response False (Inr (Obj [(''detail'', Str ''Email not found'')]))"
  let ?err = "JsError ''Error'' ''Email not found''"
  have t: "ToBoolean (Str ''ya29.token'')" by simp
  have r1: "fst (fetchEmails ?cfg ?bk (Str ''ya29.token'') (Str ''in:inbox'') (Num ''10'') world0) = Inl ?err"
    by (simp add: client_defs Let_def)
  have r2: "fst (processLatestEmail ?cfg ?bk (Str ''ya29.token'') Undefined world0) = Inl ?err"
    by (simp add: client_defs Let_def)
  have r3: "fst (saveApplication ?cfg ?bk (Str ''ya29.token'') (Str ''18c'') world0) = Inl ?err"
    by (simp add: client_defs Let_def)
  have r4: "fst (getApplications ?cfg ?bk world0) = Inl ?err"
    by (simp add: client_defs Let_def)
  have r5: "signInWithGoogle (OAuthRejected ?err) = Inl ?err"
    by (simp add: signInWithGoogle_def)
  show ?thesis
    using thrown_errors_are_caught [of "Str ''ya29.token''" ?cfg ?bk world0 ?err "Str ''18c''"
        "OAuthRejected ?err" "\<lparr>signInLoading = False, console = []\<rparr>"]
      t r1 r2 r3 r4 r5
    by simp
qed

text \<open>
  C2. As stated the claim fails: after a successful call \<open>handleProcessLatest\<close> (and
  likewise \<open>handleSaveEmail\<close>) reloads the applications, a second request.
\<close>

theorem process_latest_issues_two_requests:
  "requests (log (handleProcessLatest \<lparr>VITE_API_URL = Undefined\<rparr>
       (\<lambda>_ _. Response True (Inr (Arr []))) (Str ''ya29.token'') world0))
     = [\<lparr>url = ''http://localhost:8000/api/applications/process-latest?query=in%3Ainbox'',
         http_method = ''POST'',
         headers = [(''Content-Type'', ''application/json''),
                    (''Authorization'', ''Bearer ya29.token'')]\<rparr>,
        \<lparr>url = ''http://localhost:8000/api/applications'', http_method = ''GET'',
         headers = [(''Content-Type'', ''application/json'')]\<rparr>]"
  by (simp add: client_defs setters Let_def params_process)

text \<open>
  C2, amended. Run with a truthy token, \<open>handleFetchEmails\<close> issues exactly one
  request; \<open>handleProcessLatest\<close> and \<open>handleSaveEmail\<close> issue their own request and,
  when it succeeded, one more, the reload of the applications. The handler's own call is
  in a try/catch whose catch branch stores the error's message in the error state; when
  the call succeeded the error state is null (\<open>handleFetchEmails\<close>,
  \<open>handleProcessLatest\<close>) or unchanged (\<open>handleSaveEmail\<close>), whatever the reload did.
\<close>

theorem handlers_requests_and_catch:
  assumes "ToBoolean tok"
  shows "requests (events_since w (handleFetchEmails cfg bk tok w)) = [req_emails cfg tok]
   \<and> (case fst (fetchEmails cfg bk tok (Str ''in:inbox'') (Num ''10'') w) of
         Inl err \<Rightarrow> error (ui (handleFetchEmails cfg bk tok w)) = Some (message err)
       | Inr _ \<Rightarrow> error (ui (handleFetchEmails cfg bk tok w)) = None)
   \<and> (case fst (processLatestEmail cfg bk tok Undefined w) of
         Inl err \<Rightarrow>
           requests (events_since w (handleProcessLatest cfg bk tok w)) = [req_process cfg tok]
           \<and> error (ui (handleProcessLatest cfg bk tok w)) = Some (message err)
       | Inr _ \<Rightarrow>
           requests (events_since w (handleProcessLatest cfg bk tok w))
             = [req_process cfg tok, req_applications cfg]
           \<and> error (ui (handleProcessLatest cfg bk tok w)) = None)
   \<and> (case fst (saveApplication cfg bk tok emailId w) of
         Inl err \<Rightarrow>
           requests (events_since w (handleSaveEmail cfg bk tok emailId w))
             = [req_save cfg tok emailId]
           \<and> error (ui (handleSaveEmail cfg bk tok emailId w)) = Some (message err)
       | Inr _ \<Rightarrow>
           requests (events_since w (handleSaveEmail cfg bk tok emailId w))
             = [req_save cfg tok emailId, req_applications cfg]
           \<and> error (ui (handleSaveEmail cfg bk tok emailId w)) = error (ui w))"
  using assms
  by (simp add: handleFetchEmails_run handleProcessLatest_run handleSaveEmail_run
        split: sum.splits)

theorem handlers_requests_and_catch_witness:
  "requests (events_since world0
      (handleFetchEmails \<lparr>VITE_API_URL = Undefined\<rparr> (\<lambda>_ _. Response True (Inr (Arr [])))
         (Str ''ya29.token'') world0))
     = [req_emails \<lparr>VITE_API_URL = Undefined\<rparr> (Str ''ya29.token'')]
   \<and> requests (events_since world0
      (handleSaveEmail \<lparr>VITE_API_URL = Undefined\<rparr> (\<lambda>_ _. Response True (Inr (Arr [])))
         (Str ''ya29.token'') (Str ''18c'') world0))
     = [req_save \<lparr>VITE_API_URL = Undefined\<rparr> (Str ''ya29.token'') (Str ''18c''),
        req_applications \<lparr>VITE_API_URL = Undefined\<rparr>]
   \<and> requests (events_since world0
      (handleProcessLatest \<lparr>VITE_API_URL = Undefined\<rparr>
         (\<lambda>_ _. Rejected (JsError ''TypeError'' ''Failed to fetch''))
         (Str ''ya29.token'') world0))
     = [req_process \<lparr>VITE_API_URL = Undefined\<rparr> (Str ''ya29.token'')]
   \<and> error (ui (handleProcessLatest \<lparr>VITE_API_URL = Undefined\<rparr>
         (\<lambda>_ _. Rejected (JsError ''TypeError'' ''Failed to fetch''))
         (Str ''ya29.token'') world0)) = Some ''Failed to fetch''"
proof -
  let ?cfg = "\<lparr>VITE_API_URL = Undefined\<rparr>"
  let ?ok = "\<lambda>(_::request list) (_::request). Response True (Inr (Arr []))"
  let ?down = "\<lambda>(_::request list) (_::request). Rejected (JsError ''TypeError'' ''Failed to fetch'')"
  have t: "ToBoolean (Str ''ya29.token'')" by simp
  have r1: "fst (saveApplication ?cfg ?ok (Str ''ya29.token'') (Str ''18c'') world0) = Inr (Arr [])"
    by (simp add: client_defs Let_def)
  have r2: "fst (processLatestEmail ?cfg ?down (Str ''ya29.token'') Undefined world0)
              = Inl (JsError ''TypeError'' ''Failed to fetch'')"
    by (simp add: client_defs Let_def)
  show ?thesis
    using handlers_requests_and_catch [OF t, of world0 ?cfg ?ok "Str ''18c''"]
      handlers_requests_and_catch [OF t, of world0 ?cfg ?down "Str ''18c''"]
    by (simp add: r1 r2)
qed

text \<open>
  C3. As stated the claim fails: \<open>lib/api.js\<close> exports six functions, and
  \<open>healthCheck\<close> targets the root path, which is none of the four endpoints.
\<close>

theorem healthCheck_is_a_fifth_endpoint:
  "requests (events_since world0
       (snd (healthCheck \<lparr>VITE_API_URL = Undefined\<rparr> (\<lambda>_ _. Response True (Inr (Arr []))) world0)))
     = [\<lparr>url = ''http://localhost:8000/'', http_method = ''GET'',
         headers = [(''Content-Type'', ''application/json'')]\<rparr>]
   \<and> endpoint_of \<lparr>VITE_API_URL = Undefined\<rparr>
        \<lparr>url = ''http://localhost:8000/'', http_method = ''GET'',
         headers = [(''Content-Type'', ''application/json'')]\<rparr> = None"
  by (simp add: client_defs Let_def endpoint_of_def)

text \<open>
  C3, amended. The endpoints the dashboard calls are exactly four. \<open>loadApplications\<close>
  always calls GET applications; with a truthy token \<open>handleFetchEmails\<close> calls GET
  emails, \<open>handleProcessLatest\<close> calls POST process-latest-email and
  \<open>handleSaveEmail\<close> calls POST save-application, each of the last two followed by GET
  applications when its call succeeded; with a falsy token the three handlers call
  nothing. So the four operations together call all four endpoints and no other. The API
  client has two more functions, which target two more endpoints: \<open>fetchEmail\<close>, a GET of
  \<open>/api/emails/\<close> followed by the identifier, and \<open>healthCheck\<close>, a GET of \<open>/\<close>.
\<close>

theorem dashboard_calls_four_endpoints:
  "map (endpoint_of cfg) (requests (events_since w (loadApplications cfg bk w)))
     = [Some GET_applications]
   \<and> map (endpoint_of cfg) (requests (events_since w (handleFetchEmails cfg bk tok w)))
     = (if ToBoolean tok then [Some GET_emails] else [])
   \<and> map (endpoint_of cfg) (requests (events_since w (handleProcessLatest cfg bk tok w)))
     = (if ToBoolean tok
        then (case fst (processLatestEmail cfg bk tok Undefined w) of
                Inl err \<Rightarrow> [Some POST_process_latest_email]
              | Inr v \<Rightarrow> [Some POST_process_latest_email, Some GET_applications])
        else [])
   \<and> map (endpoint_of cfg) (requests (events_since w (handleSaveEmail cfg bk tok emailId w)))
     = (if ToBoolean tok
        then (case fst (saveApplication cfg bk tok emailId w) of
                Inl err \<Rightarrow> [Some POST_save_application]
              | Inr v \<Rightarrow> [Some POST_save_application, Some GET_applications])
        else [])
   \<and> (ToBoolean tok \<longrightarrow>
        set (map (endpoint_of cfg)
              (requests (events_since w (loadApplications cfg bk w))
               @ requests (events_since w (handleFetchEmails cfg bk tok w))
               @ requests (events_since w (handleProcessLatest cfg bk tok w))
               @ requests (events_since w (handleSaveEmail cfg bk tok emailId w))))
          = {Some GET_emails, Some GET_applications, Some POST_save_application,
             Some POST_process_latest_email})
   \<and> map (endpoint_of cfg) (requests (events_since w (snd (fetchEmails cfg bk tok query maxResults w))))
     = [Some GET_emails]
   \<and> map (endpoint_of cfg) (requests (events_since w (snd (getApplications cfg bk w))))
     = [Some GET_applications]
   \<and> map (endpoint_of cfg) (requests (events_since w (snd (saveApplication cfg bk tok emailId w))))
     = [Some POST_save_application]
   \<and> map (endpoint_of cfg) (requests (events_since w (snd (processLatestEmail cfg bk tok query w))))
     = [Some POST_process_latest_email]
   \<and> map (\<lambda>r. (http_method r, url r, endpoint_of cfg r))
        (requests (events_since w (snd (fetchEmail cfg bk tok emailId w))))
     = [(''GET'', API_BASE cfg @ ''/api/emails/'' @ ToString emailId, None)]
   \<and> map (\<lambda>r. (http_method r, url r, endpoint_of cfg r))
        (requests (events_since w (snd (healthCheck cfg bk w))))
     = [(''GET'', API_BASE cfg @ ''/'', None)]"
proof -
  have n: "opt_method no_options = None" and p: "opt_method post_options = Some ''POST''"
    by (simp_all add: no_options_def post_options_def)
  have e1: "endpoint_of cfg (apiRequest_request cfg (''/api/emails?'' @ ps) no_options tok) = Some GET_emails"
    for ps tok
    by (simp add: endpoint_of_apiRequest_request n)
  have e4: "endpoint_of cfg
              (apiRequest_request cfg (''/api/applications/process-latest?'' @ ps) post_options tok)
              = Some POST_process_latest_email" for ps tok
    by (simp add: endpoint_of_apiRequest_request p)
  have e5: "endpoint_of cfg (apiRequest_request cfg (''/api/emails/'' @ i) no_options tok) = None"
    for i tok
    by (simp add: endpoint_of_apiRequest_request n)
  have e6: "endpoint_of cfg (apiRequest_request cfg ''/'' no_options tok) = None" for tok
    by (simp add: endpoint_of_apiRequest_request n)
  have u: "url (apiRequest_request cfg ep opts tok) = API_BASE cfg @ ep"
    and m: "http_method (apiRequest_request cfg ep no_options tok) = ''GET''" for ep opts tok
    by (simp_all add: apiRequest_request_def no_options_def)
  have l: "map (endpoint_of cfg) (requests (events_since w (loadApplications cfg bk w)))
     = [Some GET_applications]"
    using endpoint_of_requests [of cfg tok emailId]
    by (simp add: loadApplications_run split: sum.splits)
  have f: "map (endpoint_of cfg) (requests (events_since w (handleFetchEmails cfg bk tok w)))
     = (if ToBoolean tok then [Some GET_emails] else [])"
    using endpoint_of_requests [of cfg tok emailId]
    by (simp add: handleFetchEmails_run handleFetchEmails_no_token
          split: sum.splits)
  have pl: "map (endpoint_of cfg) (requests (events_since w (handleProcessLatest cfg bk tok w)))
     = (if ToBoolean tok
        then (case fst (processLatestEmail cfg bk tok Undefined w) of
                Inl err \<Rightarrow> [Some POST_process_latest_email]
              | Inr v \<Rightarrow> [Some POST_process_latest_email, Some GET_applications])
        else [])"
    using endpoint_of_requests [of cfg tok emailId]
    by (simp add: handleProcessLatest_run handleProcessLatest_no_token
          split: sum.splits)
  have s: "map (endpoint_of cfg) (requests (events_since w (handleSaveEmail cfg bk tok emailId w)))
     = (if ToBoolean tok
        then (case fst (saveApplication cfg bk tok emailId w) of
                Inl err \<Rightarrow> [Some POST_save_application]
              | Inr v \<Rightarrow> [Some POST_save_application, Some GET_applications])
        else [])"
    using endpoint_of_requests [of cfg tok emailId]
    by (simp add: handleSaveEmail_run handleSaveEmail_no_token
          split: sum.splits)
  have all4: "ToBoolean tok \<longrightarrow>
        set (map (endpoint_of cfg)
              (requests (events_since w (loadApplications cfg bk w))
               @ requests (events_since w (handleFetchEmails cfg bk tok w))
               @ requests (events_since w (handleProcessLatest cfg bk tok w))
               @ requests (events_since w (handleSaveEmail cfg bk tok emailId w))))
          = {Some GET_emails, Some GET_applications, Some POST_save_application,
             Some POST_process_latest_email}"
    using l f pl s by (auto split: sum.splits)
  have api: "map (endpoint_of cfg) (requests (events_since w (snd (fetchEmails cfg bk tok query maxResults w))))
     = [Some GET_emails]
   \<and> map (endpoint_of cfg) (requests (events_since w (snd (getApplications cfg bk w))))
     = [Some GET_applications]
   \<and> map (endpoint_of cfg) (requests (events_since w (snd (saveApplication cfg bk tok emailId w))))
     = [Some POST_save_application]
   \<and> map (endpoint_of cfg) (requests (events_since w (snd (processLatestEmail cfg bk tok query w))))
     = [Some POST_process_latest_email]
   \<and> map (\<lambda>r. (http_method r, url r, endpoint_of cfg r))
        (requests (events_since w (snd (fetchEmail cfg bk tok emailId w))))
     = [(''GET'', API_BASE cfg @ ''/api/emails/'' @ ToString emailId, None)]
   \<and> map (\<lambda>r. (http_method r, url r, endpoint_of cfg r))
        (requests (events_since w (snd (healthCheck cfg bk w))))
     = [(''GET'', API_BASE cfg @ ''/'', None)]"
    using e1 e4 e5 e6 endpoint_of_requests [of cfg tok emailId]
    by (simp add: fetchEmails_def getApplications_def saveApplication_def processLatestEmail_def
          fetchEmail_def healthCheck_def Let_def apiRequest_snd u m)
  from l f pl s all4 api show ?thesis by blast
qed

theorem dashboard_calls_four_endpoints_witness:
  "map (endpoint_of \<lparr>VITE_API_URL = Undefined\<rparr>)
     (requests (events_since world0
        (handleFetchEmails \<lparr>VITE_API_URL = Undefined\<rparr> (\<lambda>_ _. Response True (Inr (Arr [])))
           (Str ''ya29.token'') world0)))
     = [Some GET_emails]
   \<and> map (endpoint_of \<lparr>VITE_API_URL = Undefined\<rparr>)
     (requests (events_since world0
        (handleProcessLatest \<lparr>VITE_API_URL = Undefined\<rparr> (\<lambda>_ _. Response True (Inr (Arr [])))
           (Str ''ya29.token'') world0)))
     = [Some POST_process_latest_email, Some GET_applications]
   \<and> map (endpoint_of \<lparr>VITE_API_URL = Undefined\<rparr>)
     (requests (events_since world0
        (handleSaveEmail \<lparr>VITE_API_URL = Undefined\<rparr> (\<lambda>_ _. Response True (Inr (Arr [])))
           (Str ''ya29.token'') (Str ''18c'') world0)))
     = [Some POST_save_application, Some GET_applications]
   \<and> set (map (endpoint_of \<lparr>VITE_API_URL = Undefined\<rparr>)
        (requests (events_since world0
            (loadApplications \<lparr>VITE_API_URL = Undefined\<rparr> (\<lambda>_ _. Response True (Inr (Arr []))) world0))
         @ requests (events_since world0
            (handleFetchEmails \<lparr>VITE_API_URL = Undefined\<rparr> (\<lambda>_ _. Response True (Inr (Arr [])))
               (Str ''ya29.token'') world0))
         @ requests (events_since world0
            (handleProcessLatest \<lparr>VITE_API_URL = Undefined\<rparr> (\<lambda>_ _. Response True (Inr (Arr [])))
               (Str ''ya29.token'') world0))
         @ requests (events_since world0
            (handleSaveEmail \<lparr>VITE_API_URL = Undefined\<rparr> (\<lambda>_ _. Response True (Inr (Arr [])))
               (Str ''ya29.token'') (Str ''18c'') world0))))
     = {Some GET_emails, Some GET_applications, Some POST_save_application,
        Some POST_process_latest_email}
   \<and> map (\<lambda>r. (http_method r, url r, endpoint_of \<lparr>VITE_API_URL = Undefined\<rparr> r))
        (requests (events_since world0
           (snd (fetchEmail \<lparr>VITE_API_URL = Undefined\<rparr> (\<lambda>_ _. Response True (Inr (Arr [])))
                  (Str ''ya29.token'') (Str ''18c'') world0))))
     = [(''GET'', ''http://localhost:8000/api/emails/18c'', None)]"
proof -
  let ?cfg = "\<lparr>VITE_API_URL = Undefined\<rparr>"
  let ?ok = "\<lambda>(_::request list) (_::request). Response True (Inr (Arr []))"
  have t: "ToBoolean (Str ''ya29.token'')" by simp
  have r1: "fst (processLatestEmail ?cfg ?ok (Str ''ya29.token'') Undefined world0) = Inr (Arr [])"
    by (simp add: client_defs Let_def)
  have r2: "fst (saveApplication ?cfg ?ok (Str ''ya29.token'') (Str ''18c'') world0) = Inr (Arr [])"
    by (simp add: client_defs Let_def)
  have b: "API_BASE ?cfg = ''http://localhost:8000''"
    by (simp add: API_BASE_def js_or_def)
  from dashboard_calls_four_endpoints [where cfg = ?cfg and w = world0 and bk = ?ok
      and tok = "Str ''ya29.token''" and emailId = "Str ''18c''" and query = Undefined
      and maxResults = Undefined] t
  show ?thesis
    by (auto simp: r1 r2 b)
qed

text \<open>
  C6. As stated the claim fails on the rendering: the subject is rendered as
  \<open>email.subject || 'No Subject'\<close>, so an email whose subject is the empty string is
  stored as received and shown with the subject "No Subject".
\<close>

theorem empty_subject_is_not_rendered_verbatim:
  "emails (ui (handleFetchEmails \<lparr>VITE_API_URL = Undefined\<rparr>
       (\<lambda>_ _. Response True
          (Inr (Arr [Obj [(''id'', Str ''18c''), (''subject'', Str []),
                          (''sender'', Str ''hr@acme.example''), (''date'', Str ''2026-11-02'')]])))
       (Str ''ya29.token'') world0))
     = Arr [Obj [(''id'', Str ''18c''), (''subject'', Str []),
                 (''sender'', Str ''hr@acme.example''), (''date'', Str ''2026-11-02'')]]
   \<and> render_emails
        (Arr [Obj [(''id'', Str ''18c''), (''subject'', Str []),
                   (''sender'', Str ''hr@acme.example''), (''date'', Str ''2026-11-02'')]])
     = Inr (Rows [\<lparr>row_key = Some ''18c'', row_subject = ''No Subject'',
                    row_sender = ''hr@acme.example'', row_date = ''2026-11-02''\<rparr>])"
  by (simp add: client_defs setters Let_def params_fetch email_jsx_def render_email_def)

text \<open>
  C6, amended. The email objects of the backend's response are stored as received, the
  whole response becoming the emails state (the empty list when the response is falsy),
  and no operation of the dashboard changes them afterwards: \<open>loadApplications\<close>,
  \<open>handleProcessLatest\<close> and \<open>handleSaveEmail\<close> leave the emails state as it is, and
  \<open>handleFetchEmails\<close> leaves it as it is or replaces it by a new response. A list of
  email objects whose identifier, subject, sender and date are scalars is rendered row by
  row: the sender and the date are shown as they are when they are strings or numbers and
  as nothing when they are booleans, null or missing, and so is the subject, except that
  a falsy subject (missing, null, empty, false or zero) is shown as "No Subject". A list
  holding an email whose subject, sender or date is an object is not rendered: the render
  throws.
\<close>

theorem emails_stored_verbatim_and_never_changed:
  "emails (ui (loadApplications cfg bk w)) = emails (ui w)
   \<and> emails (ui (handleProcessLatest cfg bk tok w)) = emails (ui w)
   \<and> emails (ui (handleSaveEmail cfg bk tok emailId w)) = emails (ui w)
   \<and> emails (ui (handleFetchEmails cfg bk tok w)) =
       (if ToBoolean tok
        then (case fst (fetchEmails cfg bk tok (Str ''in:inbox'') (Num ''10'') w) of
                Inr result \<Rightarrow> if ToBoolean result then result else Arr []
              | Inl err \<Rightarrow> emails (ui w))
        else emails (ui w))
   \<and> (objs \<noteq> [] \<and> list_all scalar_fields objs \<longrightarrow>
        render_emails (Arr (map Obj objs)) = Inr (Rows (map shown_row objs)))
   \<and> (kvs \<in> set objs \<and> object_field kvs \<longrightarrow> isl (render_emails (Arr (map Obj objs))))"
proof -
  have l: "emails (ui (loadApplications cfg bk w)) = emails (ui w)"
    by (simp add: loadApplications_run split: sum.splits)
  have p: "emails (ui (handleProcessLatest cfg bk tok w)) = emails (ui w)"
    by (cases "ToBoolean tok")
       (simp_all add: handleProcessLatest_run handleProcessLatest_no_token split: sum.splits)
  have s: "emails (ui (handleSaveEmail cfg bk tok emailId w)) = emails (ui w)"
    by (cases "ToBoolean tok")
       (simp_all add: handleSaveEmail_run handleSaveEmail_no_token split: sum.splits)
  have f: "emails (ui (handleFetchEmails cfg bk tok w)) =
       (if ToBoolean tok
        then (case fst (fetchEmails cfg bk tok (Str ''in:inbox'') (Num ''10'') w) of
                Inr result \<Rightarrow> if ToBoolean result then result else Arr []
              | Inl err \<Rightarrow> emails (ui w))
        else emails (ui w))"
    by (cases "ToBoolean tok")
       (simp_all add: handleFetchEmails_run handleFetchEmails_no_token js_or_def split: sum.splits)
  have r: "objs \<noteq> [] \<and> list_all scalar_fields objs \<longrightarrow>
        render_emails (Arr (map Obj objs)) = Inr (Rows (map shown_row objs))"
    using render_emails_scalar [of objs] by blast
  have t: "kvs \<in> set objs \<and> object_field kvs \<longrightarrow> isl (render_emails (Arr (map Obj objs)))"
    using render_emails_object [of kvs objs] by blast
  from l p s f r t show ?thesis by blast
qed

theorem emails_stored_verbatim_and_never_changed_witness:
  "emails (ui (handleSaveEmail \<lparr>VITE_API_URL = Undefined\<rparr> (\<lambda>_ _. Response True (Inr (Arr [])))
       (Str ''ya29.token'') (Str ''18c'')
       \<lparr>ui = dashboard0\<lparr>emails := Arr [Obj [(''id'', Str ''18c''), (''subject'', Str ''Offer'')]]\<rparr>,
        log = []\<rparr>))
     = Arr [Obj [(''id'', Str ''18c''), (''subject'', Str ''Offer'')]]
   \<and> render_emails (Arr [Obj [(''id'', Str ''18c''), (''subject'', Str ''Offer''),
                              (''sender'', Bool True)]])
     = Inr (Rows [\<lparr>row_key = Some ''18c'', row_subject = ''Offer'',
                    row_sender = [], row_date = []\<rparr>])
   \<and> isl (render_emails (Arr [Obj [(''id'', Str ''18c''), (''subject'', Str ''Offer''),
                                   (''sender'', Obj [(''name'', Str ''HR'')])]]))"
proof -
  let ?cfg = "\<lparr>VITE_API_URL = Undefined\<rparr>"
  let ?ok = "\<lambda>(_::request list) (_::request). Response True (Inr (Arr []))"
  let ?w = "\<lparr>ui = dashboard0\<lparr>emails := Arr [Obj [(''id'', Str ''18c''), (''subject'', Str ''Offer'')]]\<rparr>,
             log = []\<rparr>"
  let ?a = "[(''id'', Str ''18c''), (''subject'', Str ''Offer''), (''sender'', Bool True)]"
  let ?b = "[(''id'', Str ''18c''), (''subject'', Str ''Offer''),
             (''sender'', Obj [(''name'', Str ''HR'')])]"
  have sc: "[?a] \<noteq> [] \<and> list_all scalar_fields [?a]"
    by (simp add: scalar_fields_def own_property_def)
  have ob: "?b \<in> set [?b] \<and> object_field ?b"
    by (simp add: object_field_def own_property_def)
  have sh: "shown_row ?a = \<lparr>row_key = Some ''18c'', row_subject = ''Offer'',
                    row_sender = [], row_date = []\<rparr>"
    by (simp add: shown_row_def own_property_def js_or_def)
  from emails_stored_verbatim_and_never_changed
         [of ?cfg ?ok ?w "Str ''ya29.token''" "Str ''18c''" "[?a]"] sc sh
  have 1: "emails (ui (handleSaveEmail ?cfg ?ok (Str ''ya29.token'') (Str ''18c'') ?w))
             = Arr [Obj [(''id'', Str ''18c''), (''subject'', Str ''Offer'')]]"
    and 2: "render_emails (Arr [Obj ?a])
             = Inr (Rows [\<lparr>row_key = Some ''18c'', row_subject = ''Offer'',
                    row_sender = [], row_date = []\<rparr>])"
    by simp_all
  from emails_stored_verbatim_and_never_changed
         [of ?cfg ?ok ?w "Str ''ya29.token''" "Str ''18c''" "[?b]" ?b] ob
  have 3: "isl (render_emails (Arr [Obj ?b]))" by simp
  from 1 2 3 show ?thesis by simp
qed




end
